theory Spec2Isabelle
  imports Complex_Main
begin

section \<open>Python values and errors\<close>

text \<open>
  The exceptions the two drivers can raise are values of one datatype; a function that
  can raise returns \<open>error + 'a\<close>, with \<open>Inl\<close> for the exception.
\<close>

datatype error =
    AssertionError string
  | RuntimeError string
  | IndexError
  | TypeError
  | KeyError string
  | FileNotFoundError string
  | UnboundLocalError string
  | ZeroDivisionError
  | ArgparseExit

text \<open>
  Python's \<open>xs[i]\<close> on a list: a negative index counts from the end, and an index
  outside \<open>-len(xs) .. len(xs)-1\<close> raises IndexError.
\<close>

definition py_index :: "'a list \<Rightarrow> int \<Rightarrow> error + 'a" where
  "py_index xs i =
     (if 0 \<le> i \<and> i < int (length xs) then Inr (xs ! nat i)
      else if i < 0 \<and> - int (length xs) \<le> i then Inr (xs ! nat (int (length xs) + i))
      else Inl IndexError)"

section \<open>train.py: the learning-rate vector\<close>

text \<open>
  \<^verbatim>\<open>
  def lr_vec_fcn(values, milestones):
      lr_vec = []
      for n in range(len(milestones)-1):
          lr_vec += [values[n]]*(milestones[n+1]-milestones[n])
      return lr_vec
  \<close>
  The loop runs over the indices of \<open>range(len(milestones)-1)\<close>, which is empty for an
  empty list of milestones. \<open>values[n]\<close> raises IndexError when \<open>values\<close> is too
  short; \<open>milestones[n]\<close> and \<open>milestones[n+1]\<close> are in range for every index of
  the loop. A list times a negative number is the empty list, as \<open>replicate (nat k)\<close> is.
\<close>

fun lr_vec_loop :: "'a list \<Rightarrow> int list \<Rightarrow> nat list \<Rightarrow> 'a list \<Rightarrow> error + 'a list" where
  "lr_vec_loop values milestones [] lr_vec = Inr lr_vec"
| "lr_vec_loop values milestones (n # ns) lr_vec =
     (case py_index values (int n) of
        Inl e \<Rightarrow> Inl e
      | Inr v \<Rightarrow>
          lr_vec_loop values milestones ns
            (lr_vec @ replicate (nat (milestones ! (n + 1) - milestones ! n)) v))"

definition lr_vec_fcn :: "'a list \<Rightarrow> int list \<Rightarrow> error + 'a list" where
  "lr_vec_fcn values milestones =
     lr_vec_loop values milestones [0 ..< length milestones - 1] []"

text \<open>The list the loop builds over the indices \<open>0 ..< m\<close>, written without the loop.\<close>

definition lr_blocks :: "'a list \<Rightarrow> int list \<Rightarrow> nat \<Rightarrow> 'a list" where
  "lr_blocks values milestones m =
     concat (map (\<lambda>n. replicate (nat (milestones ! (n + 1) - milestones ! n)) (values ! n)) [0 ..< m])"

text \<open>
  \<^verbatim>\<open>
  def adjust_learning_rate(optimizer, epoch, lr_vec):
      lr = lr_vec[epoch]
      for param_group in optimizer.param_groups:
          param_group['lr'] = lr
  \<close>
  An optimizer is its list of parameter groups, of which the model keeps the learning
  rate, and the rest of its state, which only the framework reads. Learning rates are
  floats that the drivers store and copy without doing arithmetic on them; they are
  \<open>real\<close> here.
\<close>

record 'o optimizer_obj =
  param_group_lrs :: "real list"
  opt_state :: 'o

definition adjust_learning_rate ::
  "'o optimizer_obj \<Rightarrow> int \<Rightarrow> real list \<Rightarrow> error + 'o optimizer_obj" where
  "adjust_learning_rate optimizer epoch lr_vec =
     (case py_index lr_vec epoch of
        Inl e \<Rightarrow> Inl e
      | Inr lr_new \<Rightarrow> Inr (optimizer\<lparr>param_group_lrs := map (\<lambda>_. lr_new) (param_group_lrs optimizer)\<rparr>))"

section \<open>train.py: arguments, objects and the world\<close>

text \<open>
  The argument parser restricts \<open>--dl-worker-type\<close> to MP and HABANA and
  \<open>--optimizer\<close> to lars and sgd (after case conversion), so these two are datatypes.
  The record has the arguments that decide the control flow of \<open>main\<close>; the others are
  passed on to the framework. \<open>distributed\<close> is not a command-line argument:
  \<open>utils.init_distributed_mode\<close> sets it.
\<close>

datatype dl_worker = MP | HABANA

datatype optimizer_name = Lars | Sgd

record args =
  eval_offset_epochs :: int
  epochs_between_evals :: int
  dl_worker_type :: dl_worker
  device :: string
  run_lazy_mode :: bool
  is_hmp :: bool
  apex :: bool
  output_dir :: string
  enable_tensorboard_logging :: bool
  distributed :: bool
  optimizer :: optimizer_name
  lr :: real
  custom_lr_values :: "real list option"
  custom_lr_milestones :: "int list option"
  epochs :: int
  resume :: string
  start_epoch :: int
  test_only :: bool
  save_checkpoint :: bool
  world_size :: int
  batch_size :: int

text \<open>
  What a run depends on besides its arguments: the interpreter, which optional packages
  can be imported, and what \<open>utils.init_distributed_mode\<close> and \<open>utils.get_rank\<close>
  (not part of the two source files) find.
\<close>

record env =
  python_major :: nat
  amp_available :: bool
  habana_dataloader_available :: bool
  init_distributed :: bool
  rank :: int

text \<open>
  The objects \<open>main\<close> trains: the state of the model, the optimizer, and the scheduler,
  which is \<open>None\<close> when custom learning rates are used. A state is what
  \<open>state_dict()\<close> returns and \<open>load_state_dict\<close> takes.
\<close>

record ('m, 'o, 's) objects =
  model :: 'm
  optim :: "'o optimizer_obj"
  lr_scheduler :: "'s option"

datatype ('m, 'o, 's) pyval =
    PyNone
  | PyInt int
  | ModelState 'm
  | OptimizerState "'o optimizer_obj"
  | SchedulerState 's
  | PyArgs args

text \<open>A dictionary with string keys, in insertion order.\<close>

type_synonym ('m, 'o, 's) pydict = "(string \<times> ('m, 'o, 's) pyval) list"

definition py_lookup :: "(string \<times> 'v) list \<Rightarrow> string \<Rightarrow> error + 'v" where
  "py_lookup d k = (case map_of d k of None \<Rightarrow> Inl (KeyError k) | Some v \<Rightarrow> Inr v)"

definition py_getitem :: "('m, 'o, 's) pydict \<Rightarrow> string \<Rightarrow> error + ('m, 'o, 's) pyval" where
  "py_getitem d k = py_lookup d k"

text \<open>
  The calls \<open>main\<close> makes into the framework and into \<open>utils\<close>, in the order it makes
  them, are the trace of a run. Calls that neither fail in the model nor change anything
  \<open>main\<close> reads later (seeding, building the data loaders, wrapping the model for
  distributed training, printing) are left out.
\<close>

datatype ('m, 'o, 's) event =
    SetStartMethod
  | HmpConvert
  | Mkdir string
  | InitDistributedMode
  | SummaryWriter string
  | TorchLoad string
  | SetEpoch int
  | TrainOneEpoch int
  | Evaluate int
  | SaveOnMaster string "('m, 'o, 's) pydict"

record ('m, 'o, 's) world =
  files :: "string \<rightharpoonup> ('m, 'o, 's) pydict"
  environ :: "string \<rightharpoonup> string"
  trace :: "('m, 'o, 's) event list"

definition emit :: "('m, 'o, 's) event \<Rightarrow> ('m, 'o, 's) world \<Rightarrow> ('m, 'o, 's) world" where
  "emit ev w = w\<lparr>trace := trace w @ [ev]\<rparr>"

text \<open>
  What the framework computes is a parameter of the model: the freshly built model,
  optimizer and scheduler (lines 332 to 408), and what \<open>train_one_epoch\<close> does to them.
  \<open>train_one_epoch\<close> and \<open>evaluate\<close> consist of framework calls over the batches of a
  data loader; they are taken to return. \<open>train_one_epoch\<close> steps the scheduler it is
  given and cannot create or remove one, so its effect on the scheduler is a function on
  the scheduler's state.
\<close>

record ('m, 'o, 's) framework =
  fw_init_model :: "args \<Rightarrow> 'm"
  fw_init_optimizer :: "args \<Rightarrow> 'o optimizer_obj"
  fw_init_scheduler :: "args \<Rightarrow> 's"
  fw_train_model :: "args \<Rightarrow> int \<Rightarrow> ('m, 'o, 's) objects \<Rightarrow> 'm"
  fw_train_optimizer :: "args \<Rightarrow> int \<Rightarrow> ('m, 'o, 's) objects \<Rightarrow> 'o optimizer_obj"
  fw_train_scheduler :: "args \<Rightarrow> int \<Rightarrow> ('m, 'o, 's) objects \<Rightarrow> 's \<Rightarrow> 's"

definition train_one_epoch ::
  "('m, 'o, 's) framework \<Rightarrow> args \<Rightarrow> int \<Rightarrow> ('m, 'o, 's) objects \<Rightarrow> ('m, 'o, 's) objects" where
  "train_one_epoch fw a epoch objs =
     \<lparr>model = fw_train_model fw a epoch objs,
      optim = fw_train_optimizer fw a epoch objs,
      lr_scheduler = map_option (fw_train_scheduler fw a epoch objs) (lr_scheduler objs)\<rparr>"

subsection \<open>Strings and paths\<close>

text \<open>\<open>'{}'.format(epoch)\<close> is the decimal numeral of the integer.\<close>

definition digit_char :: "nat \<Rightarrow> char" where
  "digit_char d = ''0123456789'' ! d"

fun str_nat :: "nat \<Rightarrow> string" where
  "str_nat n = (if n < 10 then [digit_char n] else str_nat (n div 10) @ [digit_char (n mod 10)])"

definition str_int :: "int \<Rightarrow> string" where
  "str_int i = (if i < 0 then CHR ''-'' # str_nat (nat (- i)) else str_nat (nat i))"

text \<open>\<open>os.path.join\<close> of two components, on POSIX.\<close>

definition os_path_join :: "string \<Rightarrow> string \<Rightarrow> string" where
  "os_path_join a b =
     (if b \<noteq> [] \<and> hd b = CHR ''/'' then b
      else if a = [] \<or> last a = CHR ''/'' then a @ b
      else a @ ''/'' @ b)"

definition model_path :: "args \<Rightarrow> int \<Rightarrow> string" where
  "model_path a epoch = os_path_join (output_dir a) (''model_'' @ str_int epoch @ ''.pth'')"

definition checkpoint_path :: "args \<Rightarrow> string" where
  "checkpoint_path a = os_path_join (output_dir a) ''checkpoint.pth''"

section \<open>train.py: main\<close>

subsection \<open>Lines 242 to 285: checks and set-up\<close>

definition check_eval_args :: "args \<Rightarrow> error + unit" where
  "check_eval_args a =
     (if eval_offset_epochs a < 0
      then Inl (AssertionError ''Eval offset has to be 0 or bigger'')
      else if epochs_between_evals a < 1
      then Inl (AssertionError ''Epochs between evaluations has to be 1 or bigger'')
      else Inr ())"

text \<open>
  With MP the start method is set and a RuntimeError of that call is swallowed; with
  HABANA the package is imported, and an ImportError becomes a failed assertion.
\<close>

definition setup_dl_worker ::
  "env \<Rightarrow> args \<Rightarrow> ('m, 'o, 's) world \<Rightarrow> (error + unit) \<times> ('m, 'o, 's) world" where
  "setup_dl_worker ev a w =
     (case dl_worker_type a of
        MP \<Rightarrow> (Inr (), emit SetStartMethod w)
      | HABANA \<Rightarrow>
          if habana_dataloader_available ev then (Inr (), w)
          else (Inl (AssertionError ''Could Not import habana dataloader package''), w))"

definition setup_modes :: "args \<Rightarrow> ('m, 'o, 's) world \<Rightarrow> ('m, 'o, 's) world" where
  "setup_modes a w =
     (let w1 = (if device a = ''hpu'' \<and> \<not> run_lazy_mode a
                then w\<lparr>environ := (environ w)(''PT_HPU_LAZY_MODE'' \<mapsto> ''2'')\<rparr> else w)
      in if is_hmp a then emit HmpConvert w1 else w1)"

definition check_apex :: "env \<Rightarrow> args \<Rightarrow> error + unit" where
  "check_apex ev a =
     (if apex a then
        if python_major ev < 3
        then Inl (RuntimeError ''Apex currently only supports Python 3. Aborting.'')
        else if \<not> amp_available ev
        then Inl (RuntimeError (''Failed to import apex. Please install apex from https://www.github.com/nvidia/apex '' @
                                 ''to enable mixed-precision training.''))
        else Inr ()
      else Inr ())"

definition create_rank_dir :: "env \<Rightarrow> string \<Rightarrow> string" where
  "create_rank_dir ev dir = dir @ ''/worker_'' @ str_int (rank ev)"

definition prepare_output ::
  "env \<Rightarrow> args \<Rightarrow> ('m, 'o, 's) world \<Rightarrow> args \<times> ('m, 'o, 's) world" where
  "prepare_output ev a w =
     (let w1 = (if output_dir a \<noteq> [] then emit (Mkdir (output_dir a)) w else w);
          w2 = emit InitDistributedMode w1;
          a' = a\<lparr>distributed := init_distributed ev\<rparr>;
          w3 = (if enable_tensorboard_logging a'
                then emit (SummaryWriter (create_rank_dir ev (output_dir a')))
                       (emit (Mkdir (create_rank_dir ev (output_dir a'))) w2)
                else w2)
      in (a', w3))"

subsection \<open>Lines 332 to 408: model, optimizer, scheduler\<close>

text \<open>
  Lines 385 and 386 compute \<open>ceil(num_images / args.world_size / args.batch_size)\<close>;
  the divisions raise ZeroDivisionError on a zero divisor. The quotients go to
  \<open>train_one_epoch\<close> and \<open>evaluate\<close> only.
\<close>

definition check_steps :: "args \<Rightarrow> error + unit" where
  "check_steps a =
     (if world_size a = 0 then Inl ZeroDivisionError
      else if batch_size a = 0 then Inl ZeroDivisionError
      else Inr ())"

text \<open>
  With lars, and with sgd without custom values, there is a scheduler object. With sgd
  and custom values there is none and \<open>lr_vec\<close> is bound; \<open>[0] + None\<close> is a TypeError.
\<close>

definition make_lr_scheduler ::
  "('m, 'o, 's) framework \<Rightarrow> args \<Rightarrow> error + ('s option \<times> real list option)" where
  "make_lr_scheduler fw a =
     (case optimizer a of
        Lars \<Rightarrow> Inr (Some (fw_init_scheduler fw a), None)
      | Sgd \<Rightarrow>
          (case custom_lr_values a of
             Some vs \<Rightarrow>
               (case custom_lr_milestones a of
                  None \<Rightarrow> Inl TypeError
                | Some ms \<Rightarrow>
                    (case lr_vec_fcn (lr a # vs) (0 # ms @ [epochs a]) of
                       Inl e \<Rightarrow> Inl e
                     | Inr lr_vec \<Rightarrow> Inr (None, Some lr_vec)))
           | None \<Rightarrow> Inr (Some (fw_init_scheduler fw a), None)))"

subsection \<open>Lines 425 to 433: resuming from a checkpoint\<close>

text \<open>
  \<open>load_state_dict\<close> takes a state of the object's own kind; the framework rejects
  anything else. \<open>checkpoint['epoch'] + 1\<close> needs an integer.
\<close>

definition and_then :: "error + 'a \<Rightarrow> ('a \<Rightarrow> error + 'b) \<Rightarrow> error + 'b" where
  "and_then r f = (case r of Inl e \<Rightarrow> Inl e | Inr x \<Rightarrow> f x)"

fun model_load_state_dict :: "('m, 'o, 's) pyval \<Rightarrow> error + 'm" where
  "model_load_state_dict (ModelState m) = Inr m"
| "model_load_state_dict _ = Inl TypeError"

fun optimizer_load_state_dict :: "('m, 'o, 's) pyval \<Rightarrow> error + 'o optimizer_obj" where
  "optimizer_load_state_dict (OptimizerState opt) = Inr opt"
| "optimizer_load_state_dict _ = Inl TypeError"

fun scheduler_load_state_dict :: "('m, 'o, 's) pyval \<Rightarrow> error + 's" where
  "scheduler_load_state_dict (SchedulerState sch) = Inr sch"
| "scheduler_load_state_dict _ = Inl TypeError"

fun py_plus_one :: "('m, 'o, 's) pyval \<Rightarrow> error + int" where
  "py_plus_one (PyInt n) = Inr (n + 1)"
| "py_plus_one _ = Inl TypeError"

definition load_checkpoint ::
  "args \<Rightarrow> ('m, 'o, 's) objects \<Rightarrow> ('m, 'o, 's) pydict \<Rightarrow> error + (args \<times> ('m, 'o, 's) objects)" where
  "load_checkpoint a objs checkpoint =
     and_then (py_getitem checkpoint ''model'') (\<lambda>mv.
     and_then (model_load_state_dict mv) (\<lambda>m.
     and_then (py_getitem checkpoint ''optimizer'') (\<lambda>ov.
     and_then (optimizer_load_state_dict ov) (\<lambda>opt.
     and_then (case lr_scheduler objs of
            None \<Rightarrow> Inr None
          | Some _ \<Rightarrow>
              and_then (py_getitem checkpoint ''lr_scheduler'') (\<lambda>sv.
              and_then (scheduler_load_state_dict sv) (\<lambda>sch. Inr (Some sch)))) (\<lambda>sched.
     and_then (py_getitem checkpoint ''epoch'') (\<lambda>ev.
     and_then (py_plus_one ev) (\<lambda>n.
     Inr (a\<lparr>start_epoch := n\<rparr>, \<lparr>model = m, optim = opt, lr_scheduler = sched\<rparr>))))))))"

definition resume_step ::
  "args \<Rightarrow> ('m, 'o, 's) objects \<Rightarrow> ('m, 'o, 's) world
     \<Rightarrow> (error + (args \<times> ('m, 'o, 's) objects)) \<times> ('m, 'o, 's) world" where
  "resume_step a objs w =
     (if resume a \<noteq> [] then
        (case files w (resume a) of
           None \<Rightarrow> (Inl (FileNotFoundError (resume a)), w)
         | Some checkpoint \<Rightarrow> (load_checkpoint a objs checkpoint, emit (TorchLoad (resume a)) w))
      else (Inr (a, objs), w))"

subsection \<open>Lines 445 to 489: the training loop\<close>

text \<open>
  Modelled from the spec: \<open>utils.save_on_master\<close> is not among the source files; the
  spec has the checkpoint written through the framework's serialization routines, so the
  call stores the dictionary under the path. The call itself is in the trace.
\<close>

definition save_on_master ::
  "('m, 'o, 's) pydict \<Rightarrow> string \<Rightarrow> ('m, 'o, 's) world \<Rightarrow> ('m, 'o, 's) world" where
  "save_on_master d path w = emit (SaveOnMaster path d) (w\<lparr>files := (files w)(path \<mapsto> d)\<rparr>)"

definition make_checkpoint :: "args \<Rightarrow> ('m, 'o, 's) objects \<Rightarrow> int \<Rightarrow> ('m, 'o, 's) pydict" where
  "make_checkpoint a objs epoch =
     [(''model'', ModelState (model objs)),
      (''optimizer'', OptimizerState (optim objs)),
      (''lr_scheduler'', (case lr_scheduler objs of None \<Rightarrow> PyNone | Some sch \<Rightarrow> SchedulerState sch)),
      (''epoch'', PyInt epoch),
      (''args'', PyArgs a)]"

text \<open>Lines 461 to 489; the two branches on the device are the same code.\<close>

definition save_checkpoint_step ::
  "args \<Rightarrow> ('m, 'o, 's) objects \<Rightarrow> int \<Rightarrow> ('m, 'o, 's) world \<Rightarrow> ('m, 'o, 's) world" where
  "save_checkpoint_step a objs epoch w =
     (if output_dir a \<noteq> [] \<and> save_checkpoint a then
        if device a = ''hpu''
        then save_on_master (make_checkpoint a objs epoch) (checkpoint_path a)
               (save_on_master (make_checkpoint a objs epoch) (model_path a epoch) w)
        else save_on_master (make_checkpoint a objs epoch) (checkpoint_path a)
               (save_on_master (make_checkpoint a objs epoch) (model_path a epoch) w)
      else w)"

record ('m, 'o, 's) loop_state =
  ls_objects :: "('m, 'o, 's) objects"
  ls_next_eval_epoch :: int
  ls_world :: "('m, 'o, 's) world"

text \<open>
  One iteration. \<open>lr_vec\<close> is a local variable that is bound only on the path that
  leaves the scheduler \<open>None\<close>; \<open>None\<close> here stands for the unbound variable.
\<close>

definition epoch_body ::
  "('m, 'o, 's) framework \<Rightarrow> args \<Rightarrow> real list option \<Rightarrow> int \<Rightarrow> ('m, 'o, 's) loop_state
     \<Rightarrow> error option \<times> ('m, 'o, 's) loop_state" where
  "epoch_body fw a lr_vec epoch st =
     (let w1 = (if distributed a \<and> dl_worker_type a \<noteq> HABANA
                then emit (SetEpoch epoch) (ls_world st) else ls_world st);
          adjusted = (case lr_scheduler (ls_objects st) of
                        None \<Rightarrow>
                          (case lr_vec of
                             None \<Rightarrow> Inl (UnboundLocalError ''lr_vec'')
                           | Some v \<Rightarrow> adjust_learning_rate (optim (ls_objects st)) epoch v)
                      | Some _ \<Rightarrow> Inr (optim (ls_objects st)))
      in case adjusted of
           Inl e \<Rightarrow> (Some e, st\<lparr>ls_world := w1\<rparr>)
         | Inr opt \<Rightarrow>
             (let objs = train_one_epoch fw a epoch ((ls_objects st)\<lparr>optim := opt\<rparr>);
                  w2 = emit (TrainOneEpoch epoch) w1;
                  w3 = (if epoch = ls_next_eval_epoch st then emit (Evaluate epoch) w2 else w2);
                  next_eval = (if epoch = ls_next_eval_epoch st
                               then ls_next_eval_epoch st + epochs_between_evals a
                               else ls_next_eval_epoch st)
              in (None, \<lparr>ls_objects = objs, ls_next_eval_epoch = next_eval,
                         ls_world = save_checkpoint_step a objs epoch w3\<rparr>)))"

fun train_loop ::
  "('m, 'o, 's) framework \<Rightarrow> args \<Rightarrow> real list option \<Rightarrow> int list \<Rightarrow> ('m, 'o, 's) loop_state
     \<Rightarrow> error option \<times> ('m, 'o, 's) loop_state" where
  "train_loop fw a lr_vec [] st = (None, st)"
| "train_loop fw a lr_vec (epoch # rest) st =
     (case epoch_body fw a lr_vec epoch st of
        (Some e, st') \<Rightarrow> (Some e, st')
      | (None, st') \<Rightarrow> train_loop fw a lr_vec rest st')"

text \<open>Lines 491 and 492: \<open>os.environ.pop\<close> raises KeyError when the variable is not set.\<close>

definition restore_environ :: "args \<Rightarrow> ('m, 'o, 's) world \<Rightarrow> error option \<times> ('m, 'o, 's) world" where
  "restore_environ a w =
     (if device a = ''hpu'' \<and> \<not> run_lazy_mode a then
        (case environ w ''PT_HPU_LAZY_MODE'' of
           None \<Rightarrow> (Some (KeyError ''PT_HPU_LAZY_MODE''), w)
         | Some _ \<Rightarrow> (None, w\<lparr>environ := (environ w)(''PT_HPU_LAZY_MODE'' := None)\<rparr>))
      else (None, w))"

subsection \<open>The whole of main\<close>

text \<open>
  Lines 425 to 496, from the objects and scheduler that the set-up built:
  resume, the test-only exit, the loop over \<open>range(args.start_epoch, args.epochs)\<close>.
\<close>

definition run_training ::
  "('m, 'o, 's) framework \<Rightarrow> args \<Rightarrow> real list option \<Rightarrow> ('m, 'o, 's) objects \<Rightarrow> ('m, 'o, 's) world
     \<Rightarrow> error option \<times> ('m, 'o, 's) world" where
  "run_training fw a lr_vec objs w =
     (case resume_step a objs w of
        (Inl e, w1) \<Rightarrow> (Some e, w1)
      | (Inr (a1, objs1), w1) \<Rightarrow>
          if test_only a1 then (None, emit (Evaluate 0) w1)
          else
            (let next0 = eval_offset_epochs a1 - 1 + start_epoch a1;
                 next_eval = (if next0 < 0 then next0 + epochs_between_evals a1 else next0)
             in case train_loop fw a1 lr_vec [start_epoch a1 .. epochs a1 - 1]
                       \<lparr>ls_objects = objs1, ls_next_eval_epoch = next_eval, ls_world = w1\<rparr> of
                  (Some e, st) \<Rightarrow> (Some e, ls_world st)
                | (None, st) \<Rightarrow> restore_environ a1 (ls_world st)))"

definition main ::
  "('m, 'o, 's) framework \<Rightarrow> env \<Rightarrow> args \<Rightarrow> ('m, 'o, 's) world \<Rightarrow> error option \<times> ('m, 'o, 's) world" where
  "main fw ev a w =
     (case check_eval_args a of
        Inl e \<Rightarrow> (Some e, w)
      | Inr _ \<Rightarrow>
          (case setup_dl_worker ev a w of
             (Inl e, w1) \<Rightarrow> (Some e, w1)
           | (Inr _, w1) \<Rightarrow>
               (let w2 = setup_modes a w1
                in case check_apex ev a of
                     Inl e \<Rightarrow> (Some e, w2)
                   | Inr _ \<Rightarrow>
                       (case prepare_output ev a w2 of
                          (a3, w3) \<Rightarrow>
                            (case check_steps a3 of
                               Inl e \<Rightarrow> (Some e, w3)
                             | Inr _ \<Rightarrow>
                                 (case make_lr_scheduler fw a3 of
                                    Inl e \<Rightarrow> (Some e, w3)
                                  | Inr (sched, lr_vec) \<Rightarrow>
                                      run_training fw a3 lr_vec
                                        \<lparr>model = fw_init_model fw a3,
                                         optim = fw_init_optimizer fw a3,
                                         lr_scheduler = sched\<rparr> w3))))))"

section \<open>inference.py\<close>

subsection \<open>Command line\<close>

text \<open>
  \<open>modes\<close> is built from the set of the three classes, keyed by class name; the order
  of a Python set is not fixed, and nothing below depends on the order chosen here.
\<close>

datatype mode_class = HPUJITModel | HPUModel | HPUGraphModel

definition modes :: "(string \<times> mode_class) list" where
  "modes = [(''HPUJITModel'', HPUJITModel), (''HPUModel'', HPUModel), (''HPUGraphModel'', HPUGraphModel)]"

definition model_def_strs :: "string list" where
  "model_def_strs = [''resnet50'', ''resnext101_32x4d'']"

definition data_type :: "string list" where
  "data_type = [''bfloat16'', ''float32'']"

text \<open>
  The options as given on the command line: \<open>None\<close> is an option that is absent
  (for \<open>--batch_size\<close>, also a value that is not an integer; for \<open>--dtype\<close>, also the
  option without a value, which gives the same \<open>'bfloat16'\<close>). The parser exits on a
  missing required option and on a value outside the \<open>choices\<close>.
\<close>

record cli =
  opt_model_type :: "string option"
  opt_model :: "string option"
  opt_batch_size :: "int option"
  opt_benchmark :: bool
  opt_accuracy :: bool
  opt_dtype :: "string option"
  opt_dataset_path :: "string option"
  opt_checkpoint_path :: "string option"

record inference_args =
  arg_model_type :: string
  arg_model :: string
  arg_batch_size :: int
  arg_benchmark :: bool
  arg_accuracy :: bool
  arg_dtype :: string
  arg_dataset_path :: string
  arg_checkpoint_path :: string

definition required_choice :: "string list \<Rightarrow> string option \<Rightarrow> error + string" where
  "required_choice choices opt =
     (case opt of
        None \<Rightarrow> Inl ArgparseExit
      | Some v \<Rightarrow> if v \<in> set choices then Inr v else Inl ArgparseExit)"

definition parse_args :: "cli \<Rightarrow> error + inference_args" where
  "parse_args c =
     and_then (required_choice (map fst modes) (opt_model_type c)) (\<lambda>t.
     and_then (required_choice model_def_strs (opt_model c)) (\<lambda>m.
     and_then (case opt_batch_size c of None \<Rightarrow> Inl ArgparseExit | Some b \<Rightarrow> Inr b) (\<lambda>b.
     and_then (case opt_dtype c of
                 None \<Rightarrow> Inr ''bfloat16''
               | Some d \<Rightarrow> if d \<in> set data_type then Inr d else Inl ArgparseExit) (\<lambda>d.
     Inr \<lparr>arg_model_type = t, arg_model = m, arg_batch_size = b,
          arg_benchmark = opt_benchmark c, arg_accuracy = opt_accuracy c, arg_dtype = d,
          arg_dataset_path = (case opt_dataset_path c of
                                None \<Rightarrow> ''/data/pytorch/imagenet/ILSVRC2012/'' | Some p \<Rightarrow> p),
          arg_checkpoint_path = (case opt_checkpoint_path c of
                                   None \<Rightarrow> ''./pretrained_checkpoint/pretrained_checkpoint.pt''
                                 | Some p \<Rightarrow> p)\<rparr>))))"

subsection \<open>The model classes\<close>

text \<open>
  A batch of the data loader is the input data and the list of its labels; the output of
  the network has one row for each sample it was given. The loader, the network and
  \<open>utils.accuracy\<close> belong to the framework and to \<open>utils\<close>, and are parameters, as are
  the successive readings of \<open>time.perf_counter\<close>. Floating-point numbers are
  \<open>real\<close>: rounding is outside the model.
\<close>

record ('d, 'l) data_loader =
  dl_batches :: "('d \<times> 'l list) list"
  dl_dataset_len :: nat
  dl_batch_size :: int

record hpu_model =
  hm_class :: mode_class
  hm_dtype :: string

datatype printed =
    InferenceDataType string
  | DurationLatency real
  | DurationThroughput real
  | TotalSamples nat
  | Top1Accuracy real
  | Metrics "(string \<times> real) list"

datatype ('d, 'l, 'row) ievent =
    ModelDef string bool
  | Instantiate mode_class
  | LoadParameters string
  | ToDeviceEval
  | JitTrace 'd
  | GraphColdRun 'd
  | GraphCapture 'd
  | RunModule 'd string
  | GraphReplay 'd string
  | Accuracy "'row list" "'l list"
  | RunBenchmark mode_class
  | RunAccuracy mode_class
  | Print printed

record ('d, 'l, 'row) ienv =
  ie_clock :: "nat \<Rightarrow> real"
  ie_ckpt_is_file :: bool
  ie_loader :: "string \<Rightarrow> int \<Rightarrow> ('d, 'l) data_loader"
  ie_example_input :: "int \<Rightarrow> 'd"
  ie_net :: "hpu_model \<Rightarrow> 'd \<Rightarrow> 'row list"
  ie_accuracy :: "'row list \<Rightarrow> 'l list \<Rightarrow> real \<times> real"

record ('d, 'l, 'row) iworld =
  iw_ticks :: nat
  iw_trace :: "('d, 'l, 'row) ievent list"

definition iemit :: "('d, 'l, 'row) ievent \<Rightarrow> ('d, 'l, 'row) iworld \<Rightarrow> ('d, 'l, 'row) iworld" where
  "iemit ev w = w\<lparr>iw_trace := iw_trace w @ [ev]\<rparr>"

definition perf_counter ::
  "('d, 'l, 'row) ienv \<Rightarrow> ('d, 'l, 'row) iworld \<Rightarrow> real \<times> ('d, 'l, 'row) iworld" where
  "perf_counter env w = (ie_clock env (iw_ticks w), w\<lparr>iw_ticks := Suc (iw_ticks w)\<rparr>)"

text \<open>
  \<open>__call__\<close>: HPUGraphModel overrides it and replays the captured graph; HPUModel and
  HPUJITModel run \<open>self.model\<close>. Moving the output to the CPU leaves its value.
\<close>

definition hpu_call ::
  "('d, 'l, 'row) ienv \<Rightarrow> hpu_model \<Rightarrow> 'd \<Rightarrow> string \<Rightarrow> ('d, 'l, 'row) iworld
     \<Rightarrow> 'row list \<times> ('d, 'l, 'row) iworld" where
  "hpu_call env m data measurement w =
     (case hm_class m of
        HPUGraphModel \<Rightarrow> (ie_net env m data, iemit (GraphReplay data measurement) w)
      | _ \<Rightarrow> (ie_net env m data, iemit (RunModule data measurement) w))"

text \<open>
  \<open>HPUModel.__init__\<close>, also run by the two subclasses through \<open>super().__init__\<close>;
  \<open>cls\<close> is \<open>type(self)\<close>. The warm-up call is made for HPUModel itself only.
\<close>

definition hpu_model_init ::
  "('d, 'l, 'row) ienv \<Rightarrow> mode_class \<Rightarrow> string \<Rightarrow> 'd option \<Rightarrow> string \<Rightarrow> ('d, 'l, 'row) iworld
     \<Rightarrow> (error + hpu_model) \<times> ('d, 'l, 'row) iworld" where
  "hpu_model_init env cls parameters_path example_input dtype w =
     (let w1 = iemit (Print (InferenceDataType dtype)) w
      in if dtype \<notin> set data_type then (Inl (KeyError dtype), w1)
         else if parameters_path \<noteq> [] \<and> \<not> ie_ckpt_is_file env
         then (Inl (FileNotFoundError parameters_path), w1)
         else
           (let w2 = (if parameters_path \<noteq> [] then iemit (LoadParameters parameters_path) w1 else w1);
                w3 = iemit ToDeviceEval w2;
                m = \<lparr>hm_class = cls, hm_dtype = dtype\<rparr>
            in if cls = HPUModel then
                 (case example_input of
                    None \<Rightarrow> (Inl TypeError, w3)
                  | Some x \<Rightarrow> (Inr m, snd (hpu_call env m x ''latency'' w3)))
               else (Inr m, w3)))"

text \<open>
  The constructor call \<open>model_type(model_def(...), parameters_path=ckpt_pth,
  example_input=example_input, dtype=model_dtype)\<close> of \<open>main\<close>. HPUJITModel is given no
  traced model path, and calls \<open>super().__init__(model_def, parameters_path)\<close> with the
  default dtype before tracing.
\<close>

definition construct ::
  "('d, 'l, 'row) ienv \<Rightarrow> mode_class \<Rightarrow> string \<Rightarrow> 'd \<Rightarrow> string \<Rightarrow> ('d, 'l, 'row) iworld
     \<Rightarrow> (error + hpu_model) \<times> ('d, 'l, 'row) iworld" where
  "construct env cls parameters_path example_input dtype w =
     (case cls of
        HPUModel \<Rightarrow> hpu_model_init env HPUModel parameters_path (Some example_input) dtype w
      | HPUJITModel \<Rightarrow>
          if dtype \<notin> set data_type then (Inl (KeyError dtype), w)
          else
            (case hpu_model_init env HPUJITModel parameters_path None ''bfloat16''
                    (iemit (Print (InferenceDataType dtype)) w) of
               (Inl e, w1) \<Rightarrow> (Inl e, w1)
             | (Inr m, w1) \<Rightarrow> (Inr m, iemit (JitTrace example_input) w1))
      | HPUGraphModel \<Rightarrow>
          (case hpu_model_init env HPUGraphModel parameters_path (Some example_input) dtype w of
             (Inl e, w1) \<Rightarrow> (Inl e, w1)
           | (Inr m, w1) \<Rightarrow>
               (Inr m, iemit (GraphCapture example_input)
                         (iemit (GraphColdRun example_input)
                            (iemit (Print (InferenceDataType dtype)) w1)))))"

subsection \<open>Benchmark\<close>

fun run_loader ::
  "('d, 'l, 'row) ienv \<Rightarrow> hpu_model \<Rightarrow> string \<Rightarrow> ('d \<times> 'l list) list \<Rightarrow> 'row list option
     \<Rightarrow> ('d, 'l, 'row) iworld \<Rightarrow> 'row list option \<times> ('d, 'l, 'row) iworld" where
  "run_loader env m measurement [] output w = (output, w)"
| "run_loader env m measurement ((data, target) # rest) output w =
     (case hpu_call env m data measurement w of
        (out, w') \<Rightarrow> run_loader env m measurement rest (Some out) w')"

text \<open>
  \<open>output\<close> is bound by the loop body; with no batch, \<open>output.to('cpu')\<close> of the
  throughput run reads an unbound variable.
\<close>

definition benchmark_runner ::
  "('d, 'l, 'row) ienv \<Rightarrow> hpu_model \<Rightarrow> ('d, 'l) data_loader \<Rightarrow> string \<Rightarrow> ('d, 'l, 'row) iworld
     \<Rightarrow> (error + real \<times> real) \<times> ('d, 'l, 'row) iworld" where
  "benchmark_runner env m data_loader measurement w =
     (case perf_counter env w of
        (start, w1) \<Rightarrow>
          (case run_loader env m measurement (dl_batches data_loader) None w1 of
             (output, w2) \<Rightarrow>
               if measurement = ''throughput'' \<and> output = None
               then (Inl (UnboundLocalError ''output''), w2)
               else (case perf_counter env w2 of (finish, w3) \<Rightarrow> (Inr (finish, start), w3))))"

definition benchmark ::
  "('d, 'l, 'row) ienv \<Rightarrow> hpu_model \<Rightarrow> ('d, 'l) data_loader \<Rightarrow> ('d, 'l, 'row) iworld
     \<Rightarrow> (error + (string \<times> real) list) \<times> ('d, 'l, 'row) iworld" where
  "benchmark env m data_loader w =
     (case benchmark_runner env m data_loader ''latency'' w of
        (Inl e, w1) \<Rightarrow> (Inl e, w1)
      | (Inr (finish_latency, start_latency), w1) \<Rightarrow>
          (let duration_latency = finish_latency - start_latency;
               w2 = iemit (Print (DurationLatency duration_latency)) w1;
               total_samples = dl_dataset_len data_loader
           in case benchmark_runner env m data_loader ''throughput'' w2 of
                (Inl e, w3) \<Rightarrow> (Inl e, w3)
              | (Inr (finish_tp, start_tp), w3) \<Rightarrow>
                  (let duration_tp = finish_tp - start_tp
                   in if duration_tp = 0 then (Inl ZeroDivisionError, w3)
                      else
                        (let performance = real total_samples / duration_tp
                         in if performance = 0 then (Inl ZeroDivisionError, w3)
                            else
                              (let avg_latency = real_of_int (dl_batch_size data_loader) / performance;
                                   w4 = iemit (Print (TotalSamples total_samples))
                                          (iemit (Print (DurationThroughput duration_tp)) w3)
                               in (Inr [(''avg_latency (ms)'', avg_latency * 1000),
                                        (''performance (img/s)'', performance)], w4))))))"

subsection \<open>Accuracy\<close>

record acc_state =
  acc1_sum :: real
  acc5_sum :: real
  last_i :: "nat option"

text \<open>
  The loop of \<open>resnet_accuracy\<close> over \<open>enumerate(data_loader, start=1)\<close>;
  \<open>output[0:target.size()[0]]\<close> is \<open>take\<close>. The call of \<open>utils.accuracy\<close> is
  in the trace with the output and target it is given.
\<close>

fun accuracy_loop ::
  "('d, 'l, 'row) ienv \<Rightarrow> hpu_model \<Rightarrow> ('d \<times> 'l list) list \<Rightarrow> nat \<Rightarrow> acc_state
     \<Rightarrow> ('d, 'l, 'row) iworld \<Rightarrow> acc_state \<times> ('d, 'l, 'row) iworld" where
  "accuracy_loop env m [] i st w = (st, w)"
| "accuracy_loop env m ((data, target) # rest) i st w =
     (case hpu_call env m data ''latency'' w of
        (out, w1) \<Rightarrow>
          (let output = (if length out \<noteq> length target then take (length target) out else out);
               w2 = iemit (Accuracy output target) w1
           in case ie_accuracy env output target of
                (acc1, acc5) \<Rightarrow>
                  (let st' = \<lparr>acc1_sum = acc1_sum st + acc1, acc5_sum = acc5_sum st + acc5,
                              last_i = Some i\<rparr>
                   in accuracy_loop env m rest (Suc i) st'
                        (iemit (Print (Top1Accuracy (acc1_sum st' / real i))) w2))))"

definition resnet_accuracy ::
  "('d, 'l, 'row) ienv \<Rightarrow> hpu_model \<Rightarrow> ('d, 'l) data_loader \<Rightarrow> ('d, 'l, 'row) iworld
     \<Rightarrow> (error + (string \<times> real) list) \<times> ('d, 'l, 'row) iworld" where
  "resnet_accuracy env hpu_model data_loader w =
     (case accuracy_loop env hpu_model (dl_batches data_loader) 1
             \<lparr>acc1_sum = 0, acc5_sum = 0, last_i = None\<rparr> w of
        (st, w') \<Rightarrow>
          (case last_i st of
             None \<Rightarrow> (Inl (UnboundLocalError ''i''), w')
           | Some i \<Rightarrow>
               (Inr [(''top_1'', acc1_sum st / real i), (''top_5'', acc5_sum st / real i)], w')))"

subsection \<open>The script\<close>

text \<open>
  \<open>get_model_defs\<close>: the local definition for resnext101_32x4d, and a dictionary with
  the one key resnet50 otherwise.
\<close>

definition get_model_defs :: "string \<Rightarrow> error + string" where
  "get_model_defs model_def =
     (if model_def = ''resnext101_32x4d'' then Inr model_def
      else if model_def = ''resnet50'' then Inr model_def
      else Inl (KeyError model_def))"

text \<open>
  \<open>main\<close> of inference.py, called from the script with the parsed arguments. The
  events \<open>RunBenchmark\<close> and \<open>RunAccuracy\<close> name the class of the object that
  \<open>benchmark\<close> and \<open>resnet_accuracy\<close> are called on.
\<close>

definition inference_main ::
  "('d, 'l, 'row) ienv \<Rightarrow> mode_class \<Rightarrow> string \<Rightarrow> inference_args \<Rightarrow> ('d, 'l, 'row) iworld
     \<Rightarrow> error option \<times> ('d, 'l, 'row) iworld" where
  "inference_main env model_type model_def a w =
     (let data_loader = ie_loader env (arg_dataset_path a) (arg_batch_size a);
          example_input = ie_example_input env (arg_batch_size a);
          pretrained = (if ie_ckpt_is_file env then False else True);
          w1 = iemit (Instantiate model_type) (iemit (ModelDef model_def pretrained) w)
      in case construct env model_type (arg_checkpoint_path a) example_input (arg_dtype a) w1 of
           (Inl e, w2) \<Rightarrow> (Some e, w2)
         | (Inr m, w2) \<Rightarrow>
             (case (if arg_benchmark a then
                      (case benchmark env m data_loader (iemit (RunBenchmark (hm_class m)) w2) of
                         (Inl e, w3) \<Rightarrow> (Some e, w3)
                       | (Inr benchmarks, w3) \<Rightarrow> (None, iemit (Print (Metrics benchmarks)) w3))
                    else (None, w2)) of
                (Some e, w3) \<Rightarrow> (Some e, w3)
              | (None, w3) \<Rightarrow>
                  if arg_accuracy a then
                    (case resnet_accuracy env m data_loader (iemit (RunAccuracy (hm_class m)) w3) of
                       (Inl e, w4) \<Rightarrow> (Some e, w4)
                     | (Inr accuracy, w4) \<Rightarrow> (None, iemit (Print (Metrics accuracy)) w4))
                  else (None, w3)))"

definition inference_script ::
  "('d, 'l, 'row) ienv \<Rightarrow> cli \<Rightarrow> ('d, 'l, 'row) iworld \<Rightarrow> error option \<times> ('d, 'l, 'row) iworld" where
  "inference_script env c w =
     (case parse_args c of
        Inl e \<Rightarrow> (Some e, w)
      | Inr a \<Rightarrow>
          (case py_lookup modes (arg_model_type a) of
             Inl e \<Rightarrow> (Some e, w)
           | Inr model_type \<Rightarrow>
               (case get_model_defs (arg_model a) of
                  Inl e \<Rightarrow> (Some e, w)
                | Inr model_def \<Rightarrow> inference_main env model_type model_def a w)))"

section \<open>Observations and example inputs\<close>

text \<open>The epochs for which \<open>train_one_epoch\<close> was called, in the order of the calls.\<close>

fun trained_epochs :: "('m, 'o, 's) event list \<Rightarrow> int list" where
  "trained_epochs [] = []"
| "trained_epochs (TrainOneEpoch e # evs) = e # trained_epochs evs"
| "trained_epochs (_ # evs) = trained_epochs evs"

fun is_runtime_error :: "error option \<Rightarrow> bool" where
  "is_runtime_error (Some (RuntimeError _)) = True"
| "is_runtime_error _ = False"

text \<open>The calls of \<open>utils.accuracy\<close> in a trace: the output and the target given.\<close>

fun accuracy_calls :: "('d, 'l, 'row) ievent list \<Rightarrow> ('row list \<times> 'l list) list" where
  "accuracy_calls [] = []"
| "accuracy_calls (Accuracy out target # evs) = (out, target) # accuracy_calls evs"
| "accuracy_calls (_ # evs) = accuracy_calls evs"

text \<open>The classes instantiated, and the classes benchmarked or scored, in a trace.\<close>

fun instantiated :: "('d, 'l, 'row) ievent list \<Rightarrow> mode_class list" where
  "instantiated [] = []"
| "instantiated (Instantiate c # evs) = c # instantiated evs"
| "instantiated (_ # evs) = instantiated evs"

fun used_classes :: "('d, 'l, 'row) ievent list \<Rightarrow> mode_class list" where
  "used_classes [] = []"
| "used_classes (RunBenchmark c # evs) = c # used_classes evs"
| "used_classes (RunAccuracy c # evs) = c # used_classes evs"
| "used_classes (_ # evs) = used_classes evs"

text \<open>The calls of the model in a trace: the data and the measurement mode.\<close>

fun model_calls :: "('d, 'l, 'row) ievent list \<Rightarrow> ('d \<times> string) list" where
  "model_calls [] = []"
| "model_calls (RunModule d meas # evs) = (d, meas) # model_calls evs"
| "model_calls (GraphReplay d meas # evs) = (d, meas) # model_calls evs"
| "model_calls (_ # evs) = model_calls evs"

text \<open>The defaults of the argument parser of train.py, and a small framework.\<close>

definition default_args :: args where
  "default_args =
     \<lparr>eval_offset_epochs = 0, epochs_between_evals = 1, dl_worker_type = HABANA,
      device = ''hpu'', run_lazy_mode = True, is_hmp = False, apex = False,
      output_dir = ''.'', enable_tensorboard_logging = False, distributed = False,
      optimizer = Sgd, lr = 1 / 10, custom_lr_values = None, custom_lr_milestones = None,
      epochs = 90, resume = [], start_epoch = 0, test_only = False, save_checkpoint = False,
      world_size = 1, batch_size = 128\<rparr>"

definition plain_env :: env where
  "plain_env =
     \<lparr>python_major = 3, amp_available = True, habana_dataloader_available = True,
      init_distributed = False, rank = 0\<rparr>"

definition counting_fw :: "(nat, nat, nat) framework" where
  "counting_fw =
     \<lparr>fw_init_model = (\<lambda>_. 0),
      fw_init_optimizer = (\<lambda>a. \<lparr>param_group_lrs = [lr a], opt_state = 0\<rparr>),
      fw_init_scheduler = (\<lambda>_. 0),
      fw_train_model = (\<lambda>_ _ objs. Suc (model objs)),
      fw_train_optimizer = (\<lambda>_ _ objs. (optim objs)\<lparr>opt_state := Suc (opt_state (optim objs))\<rparr>),
      fw_train_scheduler = (\<lambda>_ _ _ sch. Suc sch)\<rparr>"

definition empty_world :: "(nat, nat, nat) world" where
  "empty_world = \<lparr>files = Map.empty, environ = Map.empty, trace = []\<rparr>"




section \<open>Properties of the learning-rate vector\<close>

lemma py_index_nat: "n < length xs \<Longrightarrow> py_index xs (int n) = Inr (xs ! n)"
  by (simp add: py_index_def)

lemma py_index_nat_out: "length xs \<le> n \<Longrightarrow> py_index xs (int n) = Inl IndexError"
  by (simp add: py_index_def)

lemma lr_vec_loop_upt:
  "m \<le> length values \<Longrightarrow>
   lr_vec_loop values milestones [k ..< m] acc =
     Inr (acc @ concat (map (\<lambda>n. replicate (nat (milestones ! (n + 1) - milestones ! n)) (values ! n)) [k ..< m]))"
proof (induction "m - k" arbitrary: k acc)
  case 0
  then show ?case by simp
next
  case (Suc d)
  then have km: "k < m" by arith
  then have upt: "[k ..< m] = k # [Suc k ..< m]" by (simp add: upt_conv_Cons)
  have d: "d = m - Suc k" using Suc.hyps(2) by arith
  have kv: "k < length values" using km Suc.prems by arith
  show ?case
    using Suc.hyps(1) [OF d Suc.prems] by (simp add: upt py_index_nat [OF kv])
qed

lemma lr_vec_fcn_blocks:
  "length milestones - 1 \<le> length values \<Longrightarrow>
   lr_vec_fcn values milestones = Inr (lr_blocks values milestones (length milestones - 1))"
  by (simp add: lr_vec_fcn_def lr_blocks_def lr_vec_loop_upt)

lemma lr_blocks_Suc:
  "lr_blocks values milestones (Suc m) =
     lr_blocks values milestones m @ replicate (nat (milestones ! (m + 1) - milestones ! m)) (values ! m)"
  by (simp add: lr_blocks_def)

lemma length_lr_blocks_sorted:
  "sorted milestones \<Longrightarrow> m < length milestones \<Longrightarrow>
   int (length (lr_blocks values milestones m)) = milestones ! m - milestones ! 0"
proof (induction m)
  case 0
  then show ?case by (simp add: lr_blocks_def)
next
  case (Suc m)
  have "milestones ! m \<le> milestones ! Suc m"
    using Suc.prems by (simp add: sorted_iff_nth_mono)
  then show ?case using Suc by (simp add: lr_blocks_Suc)
qed

lemma nth_lr_blocks_sorted:
  "sorted milestones \<Longrightarrow> m < length milestones \<Longrightarrow> n < m \<Longrightarrow>
   milestones ! n - milestones ! 0 \<le> int i \<Longrightarrow> int i < milestones ! (n + 1) - milestones ! 0 \<Longrightarrow>
   lr_blocks values milestones m ! i = values ! n"
proof (induction m)
  case 0
  then show ?case by simp
next
  case (Suc m)
  have len: "int (length (lr_blocks values milestones m)) = milestones ! m - milestones ! 0"
    using Suc.prems by (simp add: length_lr_blocks_sorted)
  show ?case
  proof (cases "n < m")
    case True
    have "milestones ! (n + 1) \<le> milestones ! m"
      using True Suc.prems by (simp add: sorted_iff_nth_mono)
    then have "i < length (lr_blocks values milestones m)"
      using len Suc.prems(5) by linarith
    then show ?thesis
      using Suc True by (simp add: lr_blocks_Suc nth_append)
  next
    case False
    then have nm: "n = m" using Suc.prems(3) by arith
    have ge: "length (lr_blocks values milestones m) \<le> i"
      using len Suc.prems(4) nm by simp
    have "int (i - length (lr_blocks values milestones m)) < milestones ! (m + 1) - milestones ! m"
      using ge len Suc.prems(5) nm by (simp add: of_nat_diff)
    then have "i - length (lr_blocks values milestones m) < nat (milestones ! (m + 1) - milestones ! m)"
      by linarith
    then show ?thesis
      using ge nm by (simp add: lr_blocks_Suc nth_append)
  qed
qed

lemma block_exists_sorted:
  "sorted milestones \<Longrightarrow> m < length milestones \<Longrightarrow> int i < milestones ! m - milestones ! 0 \<Longrightarrow>
   \<exists>n<m. milestones ! n - milestones ! 0 \<le> int i \<and> int i < milestones ! (n + 1) - milestones ! 0"
proof (induction m)
  case 0
  then show ?case by simp
next
  case (Suc m)
  show ?case
  proof (cases "int i < milestones ! m - milestones ! 0")
    case True
    then obtain n where "n < m" "milestones ! n - milestones ! 0 \<le> int i"
      "int i < milestones ! (n + 1) - milestones ! 0"
      using Suc by auto
    then show ?thesis by (intro exI [of _ n]) simp
  next
    case False
    then show ?thesis using Suc.prems(3) by (intro exI [of _ m]) simp
  qed
qed

lemma block_unique_sorted:
  assumes "sorted milestones" "n + 1 < length milestones" "n' + 1 < length milestones"
    and "milestones ! n - milestones ! 0 \<le> int i" "int i < milestones ! (n + 1) - milestones ! 0"
    and "milestones ! n' - milestones ! 0 \<le> int i" "int i < milestones ! (n' + 1) - milestones ! 0"
  shows "n = n'"
proof (rule ccontr)
  assume "n \<noteq> n'"
  then consider "n + 1 \<le> n'" | "n' + 1 \<le> n" by arith
  then show False
  proof cases
    case 1
    then have "milestones ! (n + 1) \<le> milestones ! n'"
      using assms(1,3) by (simp add: sorted_iff_nth_mono)
    then show False using assms(5,6) by linarith
  next
    case 2
    then have "milestones ! (n' + 1) \<le> milestones ! n"
      using assms(1,2) by (simp add: sorted_iff_nth_mono)
    then show False using assms(4,7) by linarith
  qed
qed

text \<open>
  Claim C8. For a non-decreasing list of milestones that is one longer than the list of
  values, \<open>lr_vec_fcn\<close> returns a list of length \<open>milestones[-1] - milestones[0]\<close>; the
  element at index \<open>i\<close> is \<open>values[n]\<close> for the one \<open>n\<close> with
  \<open>milestones[n] - milestones[0] \<le> i < milestones[n+1] - milestones[0]\<close>; the list is
  the blocks of \<open>milestones[n+1] - milestones[n]\<close> copies of \<open>values[n]\<close>, in order.
\<close>

theorem lr_vec_fcn_piecewise:
  assumes "sorted milestones" and "length milestones = length values + 1"
  shows "\<exists>lr_vec. lr_vec_fcn values milestones = Inr lr_vec
     \<and> int (length lr_vec) = last milestones - hd milestones
     \<and> (\<forall>i<length lr_vec. \<exists>!n. n < length values
            \<and> milestones ! n - hd milestones \<le> int i
            \<and> int i < milestones ! (n + 1) - hd milestones)
     \<and> (\<forall>i<length lr_vec. \<forall>n<length values.
            milestones ! n - hd milestones \<le> int i
            \<and> int i < milestones ! (n + 1) - hd milestones
            \<longrightarrow> lr_vec ! i = values ! n)
     \<and> lr_vec = concat (map (\<lambda>n. replicate (nat (milestones ! (n + 1) - milestones ! n)) (values ! n))
                          [0 ..< length values])"
proof -
  let ?m = "length values"
  let ?r = "lr_blocks values milestones ?m"
  have ne: "milestones \<noteq> []" using assms(2) by auto
  have m: "?m < length milestones" "length milestones - 1 = ?m" using assms(2) by simp_all
  have hd0: "hd milestones = milestones ! 0" using ne by (simp add: hd_conv_nth)
  have lastm: "last milestones = milestones ! ?m" using ne m by (simp add: last_conv_nth)
  have ret: "lr_vec_fcn values milestones = Inr ?r"
    using lr_vec_fcn_blocks [of milestones "values"] m by simp
  have len: "int (length ?r) = milestones ! ?m - milestones ! 0"
    using assms(1) m(1) by (rule length_lr_blocks_sorted)
  have uniq: "\<exists>!n. n < ?m \<and> milestones ! n - hd milestones \<le> int i
            \<and> int i < milestones ! (n + 1) - hd milestones" if "i < length ?r" for i
  proof -
    have "int i < milestones ! ?m - milestones ! 0" using that len by linarith
    from block_exists_sorted [OF assms(1) m(1) this]
    obtain n where n: "n < ?m" "milestones ! n - milestones ! 0 \<le> int i"
      "int i < milestones ! (n + 1) - milestones ! 0" by auto
    show ?thesis
    proof (rule ex1I [of _ n])
      show "n < ?m \<and> milestones ! n - hd milestones \<le> int i
            \<and> int i < milestones ! (n + 1) - hd milestones"
        using n by (simp add: hd0)
    next
      fix n' assume "n' < ?m \<and> milestones ! n' - hd milestones \<le> int i
            \<and> int i < milestones ! (n' + 1) - hd milestones"
      then show "n' = n"
        using block_unique_sorted [OF assms(1), of n' n i] n m(1) by (simp add: hd0)
    qed
  qed
  have nth: "?r ! i = values ! n"
    if "n < ?m" "milestones ! n - hd milestones \<le> int i"
       "int i < milestones ! (n + 1) - hd milestones" for i n
    using nth_lr_blocks_sorted [OF assms(1) m(1) that(1)] that(2,3) by (simp add: hd0)
  have c2: "int (length ?r) = last milestones - hd milestones"
    by (simp add: len hd0 lastm)
  have c5: "?r = concat (map (\<lambda>n. replicate (nat (milestones ! (n + 1) - milestones ! n)) (values ! n))
                          [0 ..< length values])"
    by (simp add: lr_blocks_def)
  show ?thesis
  proof (intro exI [of _ ?r] conjI allI impI)
    show "lr_vec_fcn values milestones = Inr ?r" by (rule ret)
    show "int (length ?r) = last milestones - hd milestones" by (rule c2)
    show "\<exists>!n. n < ?m \<and> milestones ! n - hd milestones \<le> int i
            \<and> int i < milestones ! (n + 1) - hd milestones" if "i < length ?r" for i
      using that by (rule uniq)
    show "?r ! i = values ! n"
      if "n < ?m" "milestones ! n - hd milestones \<le> int i
            \<and> int i < milestones ! (n + 1) - hd milestones" for i n
      using nth [of n i] that by blast
    show "?r = concat (map (\<lambda>n. replicate (nat (milestones ! (n + 1) - milestones ! n)) (values ! n))
                          [0 ..< length values])" by (rule c5)
  qed
qed

theorem lr_vec_fcn_piecewise_witness:
  "sorted [0, 2, 3 :: int] \<and> length [0, 2, 3 :: int] = length [10, 20 :: nat] + 1
   \<and> lr_vec_fcn [10, 20 :: nat] [0, 2, 3] = Inr [10, 10, 20]"
proof -
  have s: "sorted [0, 2, 3 :: int]" by simp
  have l: "length [0, 2, 3 :: int] = length [10, 20 :: nat] + 1" by simp
  from lr_vec_fcn_piecewise [OF s l]
  obtain r where "lr_vec_fcn [10, 20 :: nat] [0, 2, 3] = Inr r"
    and "r = concat (map (\<lambda>n. replicate (nat ([0, 2, 3 :: int] ! (n + 1) - [0, 2, 3] ! n)) ([10, 20 :: nat] ! n))
                          [0 ..< length [10, 20 :: nat]])"
    by blast
  moreover have "[0 ..< length [10, 20 :: nat]] = [0, Suc 0]" by (simp add: upt_rec)
  ultimately show ?thesis using s by (simp add: numeral_2_eq_2 numeral_3_eq_3)
qed

section \<open>Properties of the training driver\<close>

subsection \<open>Traces of the stages\<close>

lemma trace_emit [simp]: "trace (emit ev w) = trace w @ [ev]"
  by (simp add: emit_def)

lemma files_emit [simp]: "files (emit ev w) = files w"
  by (simp add: emit_def)

lemma environ_emit [simp]: "environ (emit ev w) = environ w"
  by (simp add: emit_def)

lemma trace_save_on_master [simp]: "trace (save_on_master d p w) = trace w @ [SaveOnMaster p d]"
  by (simp add: save_on_master_def)

lemma files_save_on_master [simp]: "files (save_on_master d p w) = (files w)(p \<mapsto> d)"
  by (simp add: save_on_master_def)

lemma trained_epochs_append [simp]:
  "trained_epochs (xs @ ys) = trained_epochs xs @ trained_epochs ys"
  by (induction xs rule: trained_epochs.induct) simp_all

lemma trace_setup_dl_worker:
  "trace (snd (setup_dl_worker ev a w)) = trace w @ (if dl_worker_type a = MP then [SetStartMethod] else [])"
  by (simp add: setup_dl_worker_def split: dl_worker.split)

lemma trace_setup_modes:
  "trace (setup_modes a w) = trace w @ (if is_hmp a then [HmpConvert] else [])"
  by (simp add: setup_modes_def Let_def)

lemma trace_prepare_output:
  "trace (snd (prepare_output ev a w)) =
     trace w @ (if output_dir a \<noteq> [] then [Mkdir (output_dir a)] else []) @ [InitDistributedMode]
       @ (if enable_tensorboard_logging a
          then [Mkdir (create_rank_dir ev (output_dir a)), SummaryWriter (create_rank_dir ev (output_dir a))]
          else [])"
  by (simp add: prepare_output_def Let_def)

lemma fst_prepare_output: "fst (prepare_output ev a w) = a\<lparr>distributed := init_distributed ev\<rparr>"
  by (simp add: prepare_output_def Let_def)

lemma trace_save_checkpoint_step:
  "trace (save_checkpoint_step a objs epoch w) =
     trace w @ (if output_dir a \<noteq> [] \<and> save_checkpoint a
                then [SaveOnMaster (model_path a epoch) (make_checkpoint a objs epoch),
                      SaveOnMaster (checkpoint_path a) (make_checkpoint a objs epoch)]
                else [])"
  by (simp add: save_checkpoint_step_def)

lemma epoch_body_Some:
  assumes "epoch_body fw a lr_vec epoch st = (Some e, st')"
  shows "\<exists>evs. trace (ls_world st') = trace (ls_world st) @ evs \<and> trained_epochs evs = []
           \<and> (e = IndexError \<or> e = UnboundLocalError ''lr_vec'')"
  using assms
  by (auto simp: epoch_body_def Let_def adjust_learning_rate_def py_index_def
      split: option.splits sum.splits if_splits)

lemma epoch_body_None:
  assumes "epoch_body fw a lr_vec epoch st = (None, st')"
  shows "\<exists>evs. trace (ls_world st') = trace (ls_world st) @ evs \<and> trained_epochs evs = [epoch]
           \<and> (lr_scheduler (ls_objects st') = None \<longleftrightarrow> lr_scheduler (ls_objects st) = None)
           \<and> (output_dir a \<noteq> [] \<and> save_checkpoint a \<longrightarrow>
                SaveOnMaster (model_path a epoch) (make_checkpoint a (ls_objects st') epoch) \<in> set evs
              \<and> SaveOnMaster (checkpoint_path a) (make_checkpoint a (ls_objects st') epoch) \<in> set evs)"
  using assms
  by (auto simp: epoch_body_def Let_def trace_save_checkpoint_step train_one_epoch_def
      split: option.splits sum.splits if_splits)

subsection \<open>The training loop\<close>


lemma train_loop_epochs:
  "train_loop fw a lr_vec es st = (r, st') \<Longrightarrow>
   \<exists>evs. trace (ls_world st') = trace (ls_world st) @ evs
       \<and> (r = None \<longrightarrow> trained_epochs evs = es)
       \<and> (\<exists>k. trained_epochs evs = take k es)"
proof (induction es arbitrary: st)
  case Nil
  then show ?case by simp
next
  case (Cons epoch rest)
  obtain r1 st1 where b: "epoch_body fw a lr_vec epoch st = (r1, st1)"
    by (cases "epoch_body fw a lr_vec epoch st")
  show ?case
  proof (cases r1)
    case (Some e)
    then have "r = Some e" "st' = st1" using Cons.prems b by simp_all
    moreover obtain evs where "trace (ls_world st1) = trace (ls_world st) @ evs" "trained_epochs evs = []"
      using epoch_body_Some b Some by blast
    ultimately show ?thesis by (intro exI [of _ evs]) (auto intro: exI [of _ 0])
  next
    case None
    then have loop: "train_loop fw a lr_vec rest st1 = (r, st')" using Cons.prems b by simp
    obtain evs1 where e1: "trace (ls_world st1) = trace (ls_world st) @ evs1" "trained_epochs evs1 = [epoch]"
      using epoch_body_None b None by blast
    obtain evs2 k where e2: "trace (ls_world st') = trace (ls_world st1) @ evs2"
      "r = None \<longrightarrow> trained_epochs evs2 = rest" "trained_epochs evs2 = take k rest"
      using Cons.IH [OF loop] by blast
    show ?thesis
      using e1 e2 by (intro exI [of _ "evs1 @ evs2"]) (auto intro: exI [of _ "Suc k"])
  qed
qed




lemma epoch_body_saves:
  assumes "epoch_body fw a lr_vec epoch st = (None, st')"
    and "output_dir a \<noteq> []" and "save_checkpoint a"
  shows "\<exists>evs. trace (ls_world st') = trace (ls_world st) @ evs \<and> trained_epochs evs = [epoch]
           \<and> (lr_scheduler (ls_objects st') = None \<longleftrightarrow> lr_scheduler (ls_objects st) = None)
           \<and> SaveOnMaster (model_path a epoch) (make_checkpoint a (ls_objects st') epoch) \<in> set evs
           \<and> SaveOnMaster (checkpoint_path a) (make_checkpoint a (ls_objects st') epoch) \<in> set evs"
  using epoch_body_None [OF assms(1)] assms(2,3) by simp

lemma train_loop_saves:
  assumes "output_dir a \<noteq> []" "save_checkpoint a"
  shows "train_loop fw a lr_vec es st = (r, st') \<Longrightarrow>
   \<exists>evs. trace (ls_world st') = trace (ls_world st) @ evs
       \<and> (\<forall>e\<in>set (trained_epochs evs). \<exists>objs.
             (lr_scheduler objs = None \<longleftrightarrow> lr_scheduler (ls_objects st) = None)
           \<and> SaveOnMaster (model_path a e) (make_checkpoint a objs e) \<in> set evs
           \<and> SaveOnMaster (checkpoint_path a) (make_checkpoint a objs e) \<in> set evs)"
proof (induction es arbitrary: st)
  case Nil
  then show ?case by simp
next
  case (Cons epoch rest)
  obtain r1 st1 where b: "epoch_body fw a lr_vec epoch st = (r1, st1)"
    by (cases "epoch_body fw a lr_vec epoch st")
  show ?case
  proof (cases r1)
    case (Some e)
    then have res: "r = Some e" "st' = st1" using Cons.prems b by simp_all
    have b': "epoch_body fw a lr_vec epoch st = (Some e, st1)" using b Some by simp
    from epoch_body_Some [OF b']
    obtain evs where evs: "trace (ls_world st1) = trace (ls_world st) @ evs" "trained_epochs evs = []"
      by (elim exE conjE)
    show ?thesis
    proof (intro exI [of _ evs] conjI)
      show "trace (ls_world st') = trace (ls_world st) @ evs" using evs(1) res(2) by simp
      show "\<forall>e\<in>set (trained_epochs evs). \<exists>objs.
             (lr_scheduler objs = None \<longleftrightarrow> lr_scheduler (ls_objects st) = None)
           \<and> SaveOnMaster (model_path a e) (make_checkpoint a objs e) \<in> set evs
           \<and> SaveOnMaster (checkpoint_path a) (make_checkpoint a objs e) \<in> set evs"
        using evs(2) by simp
    qed
  next
    case None
    then have loop: "train_loop fw a lr_vec rest st1 = (r, st')" using Cons.prems b by simp
    have b': "epoch_body fw a lr_vec epoch st = (None, st1)" using b None by simp
    from epoch_body_saves [OF b' assms]
    obtain evs1 where e1: "trace (ls_world st1) = trace (ls_world st) @ evs1" "trained_epochs evs1 = [epoch]"
      "lr_scheduler (ls_objects st1) = None \<longleftrightarrow> lr_scheduler (ls_objects st) = None"
      "SaveOnMaster (model_path a epoch) (make_checkpoint a (ls_objects st1) epoch) \<in> set evs1"
      "SaveOnMaster (checkpoint_path a) (make_checkpoint a (ls_objects st1) epoch) \<in> set evs1"
      by (elim exE conjE)
    from Cons.IH [OF loop]
    obtain evs2 where e2: "trace (ls_world st') = trace (ls_world st1) @ evs2"
      "\<forall>e\<in>set (trained_epochs evs2). \<exists>objs.
             (lr_scheduler objs = None \<longleftrightarrow> lr_scheduler (ls_objects st1) = None)
           \<and> SaveOnMaster (model_path a e) (make_checkpoint a objs e) \<in> set evs2
           \<and> SaveOnMaster (checkpoint_path a) (make_checkpoint a objs e) \<in> set evs2"
      by (elim exE conjE)
    show ?thesis
    proof (intro exI [of _ "evs1 @ evs2"] conjI ballI)
      show "trace (ls_world st') = trace (ls_world st) @ evs1 @ evs2" using e1(1) e2(1) by simp
    next
      fix e assume "e \<in> set (trained_epochs (evs1 @ evs2))"
      then have "e = epoch \<or> e \<in> set (trained_epochs evs2)" using e1(2) by simp
      then show "\<exists>objs. (lr_scheduler objs = None \<longleftrightarrow> lr_scheduler (ls_objects st) = None)
           \<and> SaveOnMaster (model_path a e) (make_checkpoint a objs e) \<in> set (evs1 @ evs2)
           \<and> SaveOnMaster (checkpoint_path a) (make_checkpoint a objs e) \<in> set (evs1 @ evs2)"
      proof
        assume "e = epoch"
        then show ?thesis using e1(3,4,5) by (intro exI [of _ "ls_objects st1"]) simp
      next
        assume "e \<in> set (trained_epochs evs2)"
        with e2(2) have "\<exists>objs.
             (lr_scheduler objs = None \<longleftrightarrow> lr_scheduler (ls_objects st1) = None)
           \<and> SaveOnMaster (model_path a e) (make_checkpoint a objs e) \<in> set evs2
           \<and> SaveOnMaster (checkpoint_path a) (make_checkpoint a objs e) \<in> set evs2"
          by (rule bspec)
        then obtain objs where o: "lr_scheduler objs = None \<longleftrightarrow> lr_scheduler (ls_objects st1) = None"
          "SaveOnMaster (model_path a e) (make_checkpoint a objs e) \<in> set evs2"
          "SaveOnMaster (checkpoint_path a) (make_checkpoint a objs e) \<in> set evs2"
          by (elim exE conjE)
        show ?thesis using o e1(3) by (intro exI [of _ objs]) simp
      qed
    qed
  qed
qed

lemma load_checkpoint_Inr:
  assumes "load_checkpoint a objs ck = Inr (a', objs')"
  shows "\<exists>n. map_of ck ''epoch'' = Some (PyInt n) \<and> a' = a\<lparr>start_epoch := n + 1\<rparr>
     \<and> map_of ck ''model'' = Some (ModelState (model objs'))
     \<and> map_of ck ''optimizer'' = Some (OptimizerState (optim objs'))
     \<and> (case lr_scheduler objs of
           None \<Rightarrow> lr_scheduler objs' = None
         | Some _ \<Rightarrow> \<exists>sch. lr_scheduler objs' = Some sch \<and> map_of ck ''lr_scheduler'' = Some (SchedulerState sch))"
proof -
  have m: "model_load_state_dict v = Inr m \<longleftrightarrow> v = ModelState m" for v :: "('a, 'b, 'c) pyval" and m
    by (cases v) auto
  have ol: "optimizer_load_state_dict v = Inr opt \<longleftrightarrow> v = OptimizerState opt" for v :: "('a, 'b, 'c) pyval" and opt
    by (cases v) auto
  have sl: "scheduler_load_state_dict v = Inr sch \<longleftrightarrow> v = SchedulerState sch" for v :: "('a, 'b, 'c) pyval" and sch
    by (cases v) auto
  have p: "py_plus_one v = Inr n \<longleftrightarrow> (\<exists>k. v = PyInt k \<and> n = k + 1)" for v :: "('a, 'b, 'c) pyval" and n
    by (cases v) auto
  show ?thesis
    using assms
    by (auto simp: load_checkpoint_def and_then_def py_getitem_def py_lookup_def m ol sl p
        split: sum.splits option.splits)
qed

lemma files_setup_dl_worker [simp]: "files (snd (setup_dl_worker ev a w)) = files w"
  by (simp add: setup_dl_worker_def split: dl_worker.split)

lemma files_setup_modes [simp]: "files (setup_modes a w) = files w"
  by (simp add: setup_modes_def Let_def)

lemma files_prepare_output [simp]: "files (snd (prepare_output ev a w)) = files w"
  by (simp add: prepare_output_def Let_def)

lemma trace_restore_environ [simp]: "trace (snd (restore_environ a w)) = trace w"
  by (simp add: restore_environ_def split: option.split)

lemma resume_step_trace:
  "resume_step a objs w = (r, w1) \<Longrightarrow>
   \<exists>evs. trace w1 = trace w @ evs \<and> trained_epochs evs = []"
  by (auto simp: resume_step_def split: if_splits option.splits)

lemma resume_step_Inr:
  assumes "resume_step a objs w = (Inr (a1, objs1), w1)"
  shows "(lr_scheduler objs1 = None \<longleftrightarrow> lr_scheduler objs = None)
     \<and> (\<exists>n. a1 = a\<lparr>start_epoch := n\<rparr>)
     \<and> (\<forall>ck e. resume a \<noteq> [] \<and> files w (resume a) = Some ck \<and> map_of ck ''epoch'' = Some (PyInt e)
            \<longrightarrow> a1 = a\<lparr>start_epoch := e + 1\<rparr>)"
proof (cases "resume a = []")
  case True
  then have "a1 = a" "objs1 = objs" using assms by (simp_all add: resume_step_def)
  then show ?thesis using True by (auto intro: exI [of _ "start_epoch a"])
next
  case False
  then obtain ck where ck: "files w (resume a) = Some ck" "load_checkpoint a objs ck = Inr (a1, objs1)"
    using assms by (auto simp: resume_step_def split: option.splits)
  from load_checkpoint_Inr [OF ck(2)] show ?thesis
    using ck(1) by (auto split: option.splits)
qed

lemma run_training_trace:
  assumes "run_training fw a lr_vec objs w = (r, w')"
  shows "\<exists>evs. trace w' = trace w @ evs
     \<and> (output_dir a \<noteq> [] \<and> save_checkpoint a \<longrightarrow>
          (\<forall>e\<in>set (trained_epochs evs). \<exists>a1 objs1.
               (lr_scheduler objs1 = None \<longleftrightarrow> lr_scheduler objs = None)
             \<and> SaveOnMaster (model_path a e) (make_checkpoint a1 objs1 e) \<in> set evs
             \<and> SaveOnMaster (checkpoint_path a) (make_checkpoint a1 objs1 e) \<in> set evs))
     \<and> (\<forall>ck e. resume a \<noteq> [] \<and> files w (resume a) = Some ck \<and> map_of ck ''epoch'' = Some (PyInt e) \<longrightarrow>
          (\<exists>k. trained_epochs evs = take k [e + 1 .. epochs a - 1])
          \<and> (r = None \<and> \<not> test_only a \<longrightarrow> trained_epochs evs = [e + 1 .. epochs a - 1]))"
proof -
  obtain r1 w1 where rs: "resume_step a objs w = (r1, w1)"
    by (cases "resume_step a objs w")
  obtain evs1 where evs1: "trace w1 = trace w @ evs1" "trained_epochs evs1 = []"
    using resume_step_trace [OF rs] by blast
  show ?thesis
  proof (cases r1)
    case (Inl e)
    then have "w' = w1" "r = Some e" using assms rs by (simp_all add: run_training_def)
    then show ?thesis using evs1 by (intro exI [of _ evs1]) (auto intro: exI [of _ 0])
  next
    case (Inr p)
    obtain a1 objs1 where p: "p = (a1, objs1)" by (cases p)
    have rs': "resume_step a objs w = (Inr (a1, objs1), w1)" using rs Inr p by simp
    from resume_step_Inr [OF rs']
    have sch: "lr_scheduler objs1 = None \<longleftrightarrow> lr_scheduler objs = None"
      and a1: "\<exists>n. a1 = a\<lparr>start_epoch := n\<rparr>"
      and ep: "\<And>ck e. resume a \<noteq> [] \<Longrightarrow> files w (resume a) = Some ck \<Longrightarrow> map_of ck ''epoch'' = Some (PyInt e)
            \<Longrightarrow> a1 = a\<lparr>start_epoch := e + 1\<rparr>"
      by blast+
    have same: "output_dir a1 = output_dir a" "save_checkpoint a1 = save_checkpoint a"
      "epochs a1 = epochs a" "test_only a1 = test_only a"
      "model_path a1 = model_path a" "checkpoint_path a1 = checkpoint_path a"
      using a1 by (auto simp: model_path_def checkpoint_path_def fun_eq_iff)
    show ?thesis
    proof (cases "test_only a1")
      case True
      then have "w' = emit (Evaluate 0) w1" using assms rs' by (simp add: run_training_def)
      then show ?thesis using evs1 True same
        by (intro exI [of _ "evs1 @ [Evaluate 0]"]) (auto intro: exI [of _ 0])
    next
      case False
      define st0 :: "('a, 'b, 'c) loop_state" where "st0 = \<lparr>ls_objects = objs1,
          ls_next_eval_epoch =
            (if eval_offset_epochs a1 - 1 + start_epoch a1 < 0
             then eval_offset_epochs a1 - 1 + start_epoch a1 + epochs_between_evals a1
             else eval_offset_epochs a1 - 1 + start_epoch a1),
          ls_world = w1\<rparr>"
      obtain r2 st2 where tl: "train_loop fw a1 lr_vec [start_epoch a1 .. epochs a1 - 1] st0 = (r2, st2)"
        by (cases "train_loop fw a1 lr_vec [start_epoch a1 .. epochs a1 - 1] st0")
      have res: "(case r2 of Some e \<Rightarrow> (Some e, ls_world st2)
                  | None \<Rightarrow> restore_environ a1 (ls_world st2)) = (r, w')"
        using assms rs' False tl by (simp add: run_training_def Let_def st0_def)
      have fin: "trace w' = trace (ls_world st2)" "r = None \<longrightarrow> r2 = None"
      proof -
        show "trace w' = trace (ls_world st2)"
        proof (cases r2)
          case None
          then have "restore_environ a1 (ls_world st2) = (r, w')" using res by simp
          then have "snd (restore_environ a1 (ls_world st2)) = w'" by simp
          then show ?thesis using trace_restore_environ [of a1 "ls_world st2"] by simp
        next
          case (Some e)
          then show ?thesis using res by simp
        qed
        show "r = None \<longrightarrow> r2 = None" using res by (cases r2) auto
      qed
      obtain evs2 k where evs2: "trace (ls_world st2) = trace (ls_world st0) @ evs2"
        "r2 = None \<longrightarrow> trained_epochs evs2 = [start_epoch a1 .. epochs a1 - 1]"
        "trained_epochs evs2 = take k [start_epoch a1 .. epochs a1 - 1]"
        using train_loop_epochs [OF tl] by blast
      have saves: "\<forall>e\<in>set (trained_epochs evs2). \<exists>objs2.
             (lr_scheduler objs2 = None \<longleftrightarrow> lr_scheduler objs1 = None)
           \<and> SaveOnMaster (model_path a1 e) (make_checkpoint a1 objs2 e) \<in> set evs2
           \<and> SaveOnMaster (checkpoint_path a1) (make_checkpoint a1 objs2 e) \<in> set evs2"
        if "output_dir a \<noteq> []" "save_checkpoint a"
      proof -
        have o1: "output_dir a1 \<noteq> []" "save_checkpoint a1" using that same by simp_all
        from train_loop_saves [OF o1 tl]
        obtain evs where evs: "trace (ls_world st2) = trace (ls_world st0) @ evs"
          "\<forall>e\<in>set (trained_epochs evs). \<exists>objs2.
             (lr_scheduler objs2 = None \<longleftrightarrow> lr_scheduler (ls_objects st0) = None)
           \<and> SaveOnMaster (model_path a1 e) (make_checkpoint a1 objs2 e) \<in> set evs
           \<and> SaveOnMaster (checkpoint_path a1) (make_checkpoint a1 objs2 e) \<in> set evs"
          by blast
        have "evs = evs2" using evs(1) evs2(1) by simp
        moreover have "ls_objects st0 = objs1" by (simp add: st0_def)
        ultimately show ?thesis using evs(2) by simp
      qed
      have w1st0: "ls_world st0 = w1" by (simp add: st0_def)
      show ?thesis
      proof (intro exI [of _ "evs1 @ evs2"] conjI impI allI)
        show "trace w' = trace w @ evs1 @ evs2" using fin evs2(1) evs1 w1st0 by simp
      next
        assume "output_dir a \<noteq> [] \<and> save_checkpoint a"
        then show "\<forall>e\<in>set (trained_epochs (evs1 @ evs2)). \<exists>a1 objs1.
               (lr_scheduler objs1 = None \<longleftrightarrow> lr_scheduler objs = None)
             \<and> SaveOnMaster (model_path a e) (make_checkpoint a1 objs1 e) \<in> set (evs1 @ evs2)
             \<and> SaveOnMaster (checkpoint_path a) (make_checkpoint a1 objs1 e) \<in> set (evs1 @ evs2)"
          using saves evs1(2) sch same by fastforce
      next
        fix ck e
        assume h: "resume a \<noteq> [] \<and> files w (resume a) = Some ck \<and> map_of ck ''epoch'' = Some (PyInt e)"
        then have "start_epoch a1 = e + 1" using ep [of ck e] by simp
        then show "\<exists>k. trained_epochs (evs1 @ evs2) = take k [e + 1 .. epochs a - 1]"
          using evs2(3) evs1(2) same by auto
      next
        fix ck e
        assume h: "resume a \<noteq> [] \<and> files w (resume a) = Some ck \<and> map_of ck ''epoch'' = Some (PyInt e)"
          and "r = None \<and> \<not> test_only a"
        moreover from h have "start_epoch a1 = e + 1" using ep [of ck e] by simp
        ultimately show "trained_epochs (evs1 @ evs2) = [e + 1 .. epochs a - 1]"
          using evs2(2) evs1(2) same fin by auto
      qed
    qed
  qed
qed

subsection \<open>The stages of main\<close>

lemma main_cases:
  assumes "main fw ev a w = (r, w')"
  shows "(\<exists>e evs. r = Some e \<and> trace w' = trace w @ evs \<and> trained_epochs evs = [])
       \<or> (\<exists>evs w3 sched lr_vec.
            trace w3 = trace w @ evs \<and> trained_epochs evs = [] \<and> files w3 = files w
          \<and> make_lr_scheduler fw (a\<lparr>distributed := init_distributed ev\<rparr>) = Inr (sched, lr_vec)
          \<and> run_training fw (a\<lparr>distributed := init_distributed ev\<rparr>) lr_vec
               \<lparr>model = fw_init_model fw (a\<lparr>distributed := init_distributed ev\<rparr>),
                optim = fw_init_optimizer fw (a\<lparr>distributed := init_distributed ev\<rparr>),
                lr_scheduler = sched\<rparr> w3 = (r, w'))"
proof -
  obtain x1 w1 where dl: "setup_dl_worker ev a w = (x1, w1)"
    by (cases "setup_dl_worker ev a w")
  define w2 where "w2 = setup_modes a w1"
  define a3 where "a3 = a\<lparr>distributed := init_distributed ev\<rparr>"
  obtain a3' w3 where po': "prepare_output ev a w2 = (a3', w3)"
    by (cases "prepare_output ev a w2")
  have "a3' = a3" using fst_prepare_output [of ev a w2] po' by (simp add: a3_def)
  then have po: "prepare_output ev a w2 = (a3, w3)" using po' by simp
  have w1: "trace w1 = trace w @ (if dl_worker_type a = MP then [SetStartMethod] else [])"
    "files w1 = files w"
    using trace_setup_dl_worker [of ev a w] files_setup_dl_worker [of ev a w] dl by simp_all
  have w3: "trace w3 = trace (snd (prepare_output ev a w2))" "files w3 = files (snd (prepare_output ev a w2))"
    using po by simp_all
  have t1: "\<exists>evs. trace w1 = trace w @ evs \<and> trained_epochs evs = []"
    by (simp add: w1)
  have t2: "\<exists>evs. trace w2 = trace w @ evs \<and> trained_epochs evs = []"
    by (simp add: w2_def w1 trace_setup_modes)
  have t3: "\<exists>evs. trace w3 = trace w @ evs \<and> trained_epochs evs = []"
    by (simp add: w3 w2_def w1 trace_prepare_output trace_setup_modes)
  have f3: "files w3 = files w"
    by (simp add: w3 w2_def w1)
  show ?thesis
  proof (cases "check_eval_args a")
    case (Inl e)
    then have "r = Some e" "w' = w" using assms by (simp_all add: main_def)
    then show ?thesis by simp
  next
    case c1: (Inr u1)
    show ?thesis
    proof (cases x1)
      case (Inl e)
      then have "main fw ev a w = (Some e, w1)" using c1 dl by (simp add: main_def)
      then have "r = Some e" "w' = w1" using assms by simp_all
      then show ?thesis using t1 by simp
    next
      case c2: (Inr u2)
      have m2: "main fw ev a w =
          (case check_apex ev a of
             Inl e \<Rightarrow> (Some e, w2)
           | Inr _ \<Rightarrow>
               (case check_steps a3 of
                  Inl e \<Rightarrow> (Some e, w3)
                | Inr _ \<Rightarrow>
                    (case make_lr_scheduler fw a3 of
                       Inl e \<Rightarrow> (Some e, w3)
                     | Inr (sched, lr_vec) \<Rightarrow>
                         run_training fw a3 lr_vec
                           \<lparr>model = fw_init_model fw a3, optim = fw_init_optimizer fw a3,
                            lr_scheduler = sched\<rparr> w3)))"
        using c1 c2 dl po by (simp add: main_def w2_def Let_def split: sum.split)
      show ?thesis
      proof (cases "check_apex ev a")
        case (Inl e)
        then have "r = Some e" "w' = w2" using assms m2 by simp_all
        then show ?thesis using t2 by simp
      next
        case c3: (Inr u3)
        show ?thesis
        proof (cases "check_steps a3")
          case (Inl e)
          then have "r = Some e" "w' = w3" using assms m2 c3 by simp_all
          then show ?thesis using t3 by simp
        next
          case c4: (Inr u4)
          show ?thesis
          proof (cases "make_lr_scheduler fw a3")
            case (Inl e)
            then have "r = Some e" "w' = w3" using assms m2 c3 c4 by simp_all
            then show ?thesis using t3 by simp
          next
            case (Inr p)
            obtain sched lr_vec where p: "p = (sched, lr_vec)" by (cases p)
            have run: "run_training fw a3 lr_vec
               \<lparr>model = fw_init_model fw a3, optim = fw_init_optimizer fw a3, lr_scheduler = sched\<rparr> w3 = (r, w')"
              using assms m2 c3 c4 Inr p by simp
            from t3 obtain evs where evs: "trace w3 = trace w @ evs" "trained_epochs evs = []"
              by (elim exE conjE)
            have mk: "make_lr_scheduler fw a3 = Inr (sched, lr_vec)" using Inr p by simp
            show ?thesis
              apply (rule disjI2)
              apply (rule exI [of _ evs], rule exI [of _ w3], rule exI [of _ sched], rule exI [of _ lr_vec])
              using evs f3 mk run unfolding a3_def apply simp
              done
          qed
        qed
      qed
    qed
  qed
qed

lemma make_lr_scheduler_None:
  "make_lr_scheduler fw a = Inr (sched, lr_vec) \<Longrightarrow>
   (sched = None \<longleftrightarrow> optimizer a = Sgd \<and> custom_lr_values a \<noteq> None)"
  by (auto simp: make_lr_scheduler_def split: optimizer_name.splits option.splits sum.splits)


lemmas train_eval =
  main_def check_eval_args_def setup_dl_worker_def setup_modes_def check_apex_def
  prepare_output_def check_steps_def make_lr_scheduler_def run_training_def resume_step_def
  epoch_body_def train_one_epoch_def save_checkpoint_step_def save_on_master_def
  restore_environ_def emit_def model_path_def checkpoint_path_def os_path_join_def
  str_int_def digit_char_def make_checkpoint_def adjust_learning_rate_def
  default_args_def plain_env_def counting_fw_def empty_world_def Let_def

lemma one_epoch_run:
  "trained_epochs (trace (snd (main counting_fw plain_env (default_args\<lparr>epochs := 1, save_checkpoint := True\<rparr>) empty_world))) = [0]"
  by (simp add: train_eval)

subsection \<open>Checkpoints written by the loop\<close>

text \<open>
  Claim C2. With \<open>args.output_dir\<close> and \<open>args.save_checkpoint\<close> set, for every epoch
  \<open>e\<close> that the loop of a run of \<open>main\<close> has trained, the run has called
  \<open>utils.save_on_master\<close> with one dictionary for both \<open>model_{e}.pth\<close> and
  \<open>checkpoint.pth\<close> in the output directory; the dictionary has exactly the keys model,
  optimizer, lr_scheduler, epoch and args, in this order, its epoch is \<open>e\<close>, and its
  lr_scheduler is \<open>None\<close> exactly when the optimizer is sgd with custom learning-rate
  values. Nothing after \<open>train_one_epoch\<close> in the loop body can fail, so the epochs
  trained are the epochs completed.
\<close>

theorem main_saves_checkpoint_each_epoch:
  assumes "output_dir a \<noteq> []" and "save_checkpoint a" and "main fw ev a w = (r, w')"
  shows "\<exists>evs. trace w' = trace w @ evs \<and>
     (\<forall>e\<in>set (trained_epochs evs). \<exists>ck.
         SaveOnMaster (model_path a e) ck \<in> set evs
       \<and> SaveOnMaster (checkpoint_path a) ck \<in> set evs
       \<and> map fst ck = [''model'', ''optimizer'', ''lr_scheduler'', ''epoch'', ''args'']
       \<and> map_of ck ''epoch'' = Some (PyInt e)
       \<and> (map_of ck ''lr_scheduler'' = Some PyNone \<longleftrightarrow> optimizer a = Sgd \<and> custom_lr_values a \<noteq> None))"
proof -
  let ?a3 = "a\<lparr>distributed := init_distributed ev\<rparr>"
  from main_cases [OF assms(3)] show ?thesis
  proof (elim disjE exE conjE)
    fix e evs assume "trace w' = trace w @ evs" "trained_epochs evs = []"
    then show ?thesis by (intro exI [of _ evs]) simp
  next
    fix evs w3 sched lr_vec
    assume s: "trace w3 = trace w @ evs" "trained_epochs evs = []"
      and mk: "make_lr_scheduler fw ?a3 = Inr (sched, lr_vec)"
      and run: "run_training fw ?a3 lr_vec
               \<lparr>model = fw_init_model fw ?a3, optim = fw_init_optimizer fw ?a3, lr_scheduler = sched\<rparr> w3 = (r, w')"
    have paths: "model_path ?a3 = model_path a" "checkpoint_path ?a3 = checkpoint_path a"
      by (simp_all add: model_path_def checkpoint_path_def fun_eq_iff)
    have nosched: "sched = None \<longleftrightarrow> optimizer a = Sgd \<and> custom_lr_values a \<noteq> None"
      using make_lr_scheduler_None [OF mk] by simp
    from run_training_trace [OF run] assms(1,2)
    obtain evs2 where e2: "trace w' = trace w3 @ evs2"
      "\<forall>e\<in>set (trained_epochs evs2). \<exists>a1 objs1.
               (lr_scheduler objs1 = None \<longleftrightarrow> sched = None)
             \<and> SaveOnMaster (model_path a e) (make_checkpoint a1 objs1 e) \<in> set evs2
             \<and> SaveOnMaster (checkpoint_path a) (make_checkpoint a1 objs1 e) \<in> set evs2"
      by (auto simp: paths)
    show ?thesis
    proof (intro exI [of _ "evs @ evs2"] conjI ballI)
      show "trace w' = trace w @ evs @ evs2" using s e2 by simp
    next
      fix e assume "e \<in> set (trained_epochs (evs @ evs2))"
      then have "e \<in> set (trained_epochs evs2)" using s(2) by simp
      with e2(2) have "\<exists>a1 objs1.
               (lr_scheduler objs1 = None \<longleftrightarrow> sched = None)
             \<and> SaveOnMaster (model_path a e) (make_checkpoint a1 objs1 e) \<in> set evs2
             \<and> SaveOnMaster (checkpoint_path a) (make_checkpoint a1 objs1 e) \<in> set evs2"
        by (rule bspec)
      then obtain a1 objs1 where o: "lr_scheduler objs1 = None \<longleftrightarrow> sched = None"
        "SaveOnMaster (model_path a e) (make_checkpoint a1 objs1 e) \<in> set evs2"
        "SaveOnMaster (checkpoint_path a) (make_checkpoint a1 objs1 e) \<in> set evs2"
        by (elim exE conjE)
      have "map_of (make_checkpoint a1 objs1 e) ''lr_scheduler'' = Some PyNone
              \<longleftrightarrow> lr_scheduler objs1 = None"
        by (simp add: make_checkpoint_def split: option.split)
      then show "\<exists>ck. SaveOnMaster (model_path a e) ck \<in> set (evs @ evs2)
       \<and> SaveOnMaster (checkpoint_path a) ck \<in> set (evs @ evs2)
       \<and> map fst ck = [''model'', ''optimizer'', ''lr_scheduler'', ''epoch'', ''args'']
       \<and> map_of ck ''epoch'' = Some (PyInt e)
       \<and> (map_of ck ''lr_scheduler'' = Some PyNone \<longleftrightarrow> optimizer a = Sgd \<and> custom_lr_values a \<noteq> None)"
        using o nosched
        by (intro exI [of _ "make_checkpoint a1 objs1 e"]) (simp add: make_checkpoint_def)
    qed
  qed
qed

theorem main_saves_checkpoint_each_epoch_witness:
  "output_dir (default_args\<lparr>epochs := 1, save_checkpoint := True\<rparr>) \<noteq> []
   \<and> save_checkpoint (default_args\<lparr>epochs := 1, save_checkpoint := True\<rparr>)
   \<and> (\<exists>ck. SaveOnMaster ''./model_0.pth'' ck
              \<in> set (trace (snd (main counting_fw plain_env
                                    (default_args\<lparr>epochs := 1, save_checkpoint := True\<rparr>) empty_world)))
          \<and> SaveOnMaster ''./checkpoint.pth'' ck
              \<in> set (trace (snd (main counting_fw plain_env
                                    (default_args\<lparr>epochs := 1, save_checkpoint := True\<rparr>) empty_world)))
          \<and> map fst ck = [''model'', ''optimizer'', ''lr_scheduler'', ''epoch'', ''args'']
          \<and> map_of ck ''epoch'' = Some (PyInt 0)
          \<and> map_of ck ''lr_scheduler'' \<noteq> Some PyNone)"
proof -
  let ?a = "default_args\<lparr>epochs := 1, save_checkpoint := True\<rparr>"
  let ?run = "main counting_fw plain_env ?a empty_world"
  have h1: "output_dir ?a \<noteq> []" by (simp add: default_args_def)
  have h2: "save_checkpoint ?a" by simp
  have h3: "?run = (fst ?run, snd ?run)" by simp
  from main_saves_checkpoint_each_epoch [OF h1 h2 h3]
  obtain evs where evs: "trace (snd ?run) = trace empty_world @ evs"
    "\<forall>e\<in>set (trained_epochs evs). \<exists>ck.
         SaveOnMaster (model_path ?a e) ck \<in> set evs
       \<and> SaveOnMaster (checkpoint_path ?a) ck \<in> set evs
       \<and> map fst ck = [''model'', ''optimizer'', ''lr_scheduler'', ''epoch'', ''args'']
       \<and> map_of ck ''epoch'' = Some (PyInt e)
       \<and> (map_of ck ''lr_scheduler'' = Some PyNone \<longleftrightarrow> optimizer ?a = Sgd \<and> custom_lr_values ?a \<noteq> None)"
    by blast
  have same: "trace (snd ?run) = evs" using evs(1) by (simp add: empty_world_def)
  have "0 \<in> set (trained_epochs evs)"
    using one_epoch_run same by simp
  with evs(2) have "\<exists>ck.
         SaveOnMaster (model_path ?a 0) ck \<in> set evs
       \<and> SaveOnMaster (checkpoint_path ?a) ck \<in> set evs
       \<and> map fst ck = [''model'', ''optimizer'', ''lr_scheduler'', ''epoch'', ''args'']
       \<and> map_of ck ''epoch'' = Some (PyInt 0)
       \<and> (map_of ck ''lr_scheduler'' = Some PyNone \<longleftrightarrow> optimizer ?a = Sgd \<and> custom_lr_values ?a \<noteq> None)"
    by (rule bspec)
  moreover have "model_path ?a 0 = ''./model_0.pth''" "checkpoint_path ?a = ''./checkpoint.pth''"
    "custom_lr_values ?a = None"
    by (simp_all add: model_path_def checkpoint_path_def os_path_join_def str_int_def
        digit_char_def default_args_def)
  ultimately show ?thesis using h1 h2 same by auto
qed

subsection \<open>Checks before any other work\<close>

text \<open>
  Claim C3, as amended. \<open>main\<close> checks its arguments before any other work, one check
  after the other: with \<open>eval_offset_epochs < 0\<close> it fails with the assertion "Eval offset
  has to be 0 or bigger"; with \<open>eval_offset_epochs \<ge> 0\<close> and
  \<open>epochs_between_evals < 1\<close> it fails with the assertion "Epochs between evaluations has
  to be 1 or bigger"; in both cases the world is untouched. The checks pass exactly when
  \<open>eval_offset_epochs \<ge> 0\<close> and \<open>epochs_between_evals \<ge> 1\<close>.
\<close>

theorem main_checks_eval_args:
  "(eval_offset_epochs a < 0 \<longrightarrow>
      main fw ev a w = (Some (AssertionError ''Eval offset has to be 0 or bigger''), w))
   \<and> (0 \<le> eval_offset_epochs a \<and> epochs_between_evals a < 1 \<longrightarrow>
      main fw ev a w = (Some (AssertionError ''Epochs between evaluations has to be 1 or bigger''), w))
   \<and> (check_eval_args a = Inr () \<longleftrightarrow> 0 \<le> eval_offset_epochs a \<and> 1 \<le> epochs_between_evals a)"
  by (simp add: main_def check_eval_args_def)

theorem main_checks_eval_args_witness:
  "eval_offset_epochs (default_args\<lparr>eval_offset_epochs := 2, epochs_between_evals := 0\<rparr>) \<ge> 0
   \<and> epochs_between_evals (default_args\<lparr>eval_offset_epochs := 2, epochs_between_evals := 0\<rparr>) < 1
   \<and> main counting_fw plain_env (default_args\<lparr>eval_offset_epochs := 2, epochs_between_evals := 0\<rparr>) empty_world
       = (Some (AssertionError ''Epochs between evaluations has to be 1 or bigger''), empty_world)
   \<and> eval_offset_epochs (default_args\<lparr>eval_offset_epochs := - 1\<rparr>) < 0
   \<and> main counting_fw plain_env (default_args\<lparr>eval_offset_epochs := - 1\<rparr>) empty_world
       = (Some (AssertionError ''Eval offset has to be 0 or bigger''), empty_world)"
  using main_checks_eval_args [of "default_args\<lparr>eval_offset_epochs := 2, epochs_between_evals := 0\<rparr>"
      counting_fw plain_env empty_world]
    main_checks_eval_args [of "default_args\<lparr>eval_offset_epochs := - 1\<rparr>" counting_fw plain_env empty_world]
  by simp

text \<open>
  With both arguments out of range the first check fails, and the assertion about the
  epochs between evaluations is not the one that is raised.
\<close>

theorem both_eval_args_invalid_counterexample:
  "epochs_between_evals (default_args\<lparr>eval_offset_epochs := - 1, epochs_between_evals := 0\<rparr>) < 1
   \<and> fst (main counting_fw plain_env
             (default_args\<lparr>eval_offset_epochs := - 1, epochs_between_evals := 0\<rparr>) empty_world)
       = Some (AssertionError ''Eval offset has to be 0 or bigger'')
   \<and> fst (main counting_fw plain_env
             (default_args\<lparr>eval_offset_epochs := - 1, epochs_between_evals := 0\<rparr>) empty_world)
       \<noteq> Some (AssertionError ''Epochs between evaluations has to be 1 or bigger'')"
  by (simp add: main_def check_eval_args_def)

subsection \<open>Missing optional dependencies\<close>

text \<open>
  Claim C4, as amended. When the checks of the evaluation arguments pass: with
  \<open>dl_worker_type\<close> HABANA and no habana_dataloader package, \<open>main\<close> fails with the
  assertion "Could Not import habana dataloader package"; with \<open>args.apex\<close> set, no apex
  package, and the data-loader import not failing, \<open>main\<close> raises a RuntimeError.
  Whenever one of the two dependencies is needed and missing, \<open>main\<close> fails and has not
  called \<open>train_one_epoch\<close>, in which every training step is made.
\<close>

theorem missing_dependency_fails:
  "(check_eval_args a = Inr () \<and> dl_worker_type a = HABANA \<and> \<not> habana_dataloader_available ev \<longrightarrow>
      main fw ev a w = (Some (AssertionError ''Could Not import habana dataloader package''), w))
   \<and> (check_eval_args a = Inr () \<and> (dl_worker_type a = HABANA \<longrightarrow> habana_dataloader_available ev)
        \<and> apex a \<and> \<not> amp_available ev \<longrightarrow>
      is_runtime_error (fst (main fw ev a w)))
   \<and> ((apex a \<and> \<not> amp_available ev) \<or> (dl_worker_type a = HABANA \<and> \<not> habana_dataloader_available ev) \<longrightarrow>
      (\<exists>e evs. fst (main fw ev a w) = Some e \<and> trace (snd (main fw ev a w)) = trace w @ evs
          \<and> trained_epochs evs = []))"
proof (intro conjI impI)
  assume "check_eval_args a = Inr () \<and> dl_worker_type a = HABANA \<and> \<not> habana_dataloader_available ev"
  then show "main fw ev a w = (Some (AssertionError ''Could Not import habana dataloader package''), w)"
    by (simp add: main_def setup_dl_worker_def)
next
  assume "check_eval_args a = Inr () \<and> (dl_worker_type a = HABANA \<longrightarrow> habana_dataloader_available ev)
        \<and> apex a \<and> \<not> amp_available ev"
  then show "is_runtime_error (fst (main fw ev a w))"
    by (cases "dl_worker_type a") (simp_all add: main_def setup_dl_worker_def check_apex_def Let_def)
next
  assume h: "(apex a \<and> \<not> amp_available ev) \<or> (dl_worker_type a = HABANA \<and> \<not> habana_dataloader_available ev)"
  have early: "\<exists>e evs. fst (main fw ev a w) = Some e \<and> trace (snd (main fw ev a w)) = trace w @ evs
          \<and> trained_epochs evs = []"
    if fails: "check_apex ev a \<noteq> Inr () \<or> fst (setup_dl_worker ev a w) \<noteq> Inr ()"
  proof (cases "check_eval_args a")
    case (Inl e)
    then show ?thesis by (simp add: main_def)
  next
    case c1: (Inr u)
    obtain x1 w1 where dl: "setup_dl_worker ev a w = (x1, w1)"
      by (cases "setup_dl_worker ev a w")
    have w1: "trace w1 = trace w @ (if dl_worker_type a = MP then [SetStartMethod] else [])"
      using trace_setup_dl_worker [of ev a w] dl by simp
    show ?thesis
    proof (cases x1)
      case (Inl e)
      then have "main fw ev a w = (Some e, w1)"
        using c1 dl by (simp add: main_def)
      then show ?thesis by (simp add: w1)
    next
      case c2: (Inr u2)
      then obtain e where e: "check_apex ev a = Inl e"
        using fails dl by (cases "check_apex ev a") auto
      then have "main fw ev a w = (Some e, setup_modes a w1)"
        using c1 c2 dl by (simp add: main_def Let_def)
      then show ?thesis by (simp add: trace_setup_modes w1)
    qed
  qed
  from h show "\<exists>e evs. fst (main fw ev a w) = Some e \<and> trace (snd (main fw ev a w)) = trace w @ evs
          \<and> trained_epochs evs = []"
    by (intro early) (auto simp: check_apex_def setup_dl_worker_def)
qed

theorem missing_dependency_fails_witness:
  "apex (default_args\<lparr>apex := True\<rparr>) \<and> \<not> amp_available (plain_env\<lparr>amp_available := False\<rparr>)
   \<and> is_runtime_error (fst (main counting_fw (plain_env\<lparr>amp_available := False\<rparr>)
                                (default_args\<lparr>apex := True\<rparr>) empty_world))
   \<and> dl_worker_type default_args = HABANA
   \<and> \<not> habana_dataloader_available (plain_env\<lparr>habana_dataloader_available := False\<rparr>)
   \<and> main counting_fw (plain_env\<lparr>habana_dataloader_available := False\<rparr>) default_args empty_world
       = (Some (AssertionError ''Could Not import habana dataloader package''), empty_world)"
  using missing_dependency_fails [of "default_args\<lparr>apex := True\<rparr>" "plain_env\<lparr>amp_available := False\<rparr>"
      counting_fw empty_world]
    missing_dependency_fails [of default_args "plain_env\<lparr>habana_dataloader_available := False\<rparr>"
      counting_fw empty_world]
  by (simp add: check_eval_args_def default_args_def plain_env_def)

text \<open>
  With both packages missing the import of the data loader fails first: the error is the
  failed assertion and not a RuntimeError, although apex is set and missing.
\<close>

theorem both_dependencies_missing_counterexample:
  "apex (default_args\<lparr>apex := True\<rparr>)
   \<and> \<not> amp_available (plain_env\<lparr>amp_available := False, habana_dataloader_available := False\<rparr>)
   \<and> fst (main counting_fw (plain_env\<lparr>amp_available := False, habana_dataloader_available := False\<rparr>)
             (default_args\<lparr>apex := True\<rparr>) empty_world)
       = Some (AssertionError ''Could Not import habana dataloader package'')
   \<and> \<not> is_runtime_error
         (fst (main counting_fw (plain_env\<lparr>amp_available := False, habana_dataloader_available := False\<rparr>)
                 (default_args\<lparr>apex := True\<rparr>) empty_world))"
  by (simp add: main_def check_eval_args_def setup_dl_worker_def default_args_def plain_env_def)

section \<open>Custom learning rates in main\<close>

lemma lr_vec_loop_upt_fail:
  "k \<le> length values \<Longrightarrow> length values < m \<Longrightarrow>
   lr_vec_loop values milestones [k ..< m] acc = Inl IndexError"
proof (induction "length values - k" arbitrary: k acc)
  case 0
  then have k: "k = length values" by arith
  then have "[k ..< m] = k # [Suc k ..< m]" using "0.prems" by (simp add: upt_conv_Cons)
  then show ?case using k by (simp add: py_index_nat_out)
next
  case (Suc d)
  then have kv: "k < length values" by arith
  then have upt: "[k ..< m] = k # [Suc k ..< m]" using Suc.prems by (simp add: upt_conv_Cons)
  have d: "d = length values - Suc k" using Suc.hyps(2) by arith
  have sk: "Suc k \<le> length values" using kv by arith
  show ?case
    using Suc.hyps(1) [OF d sk Suc.prems(2)] by (simp add: upt py_index_nat [OF kv])
qed

lemma lr_vec_fcn_short_values:
  "length values < length milestones - 1 \<Longrightarrow> lr_vec_fcn values milestones = Inl IndexError"
  by (simp add: lr_vec_fcn_def lr_vec_loop_upt_fail)

lemma length_lr_blocks_ge:
  "milestones ! m - milestones ! 0 \<le> int (length (lr_blocks values milestones m))"
proof (induction m)
  case 0
  then show ?case by (simp add: lr_blocks_def)
next
  case (Suc m)
  have "milestones ! Suc m - milestones ! m \<le> int (nat (milestones ! Suc m - milestones ! m))"
    by simp
  then show ?case using Suc by (simp add: lr_blocks_Suc)
qed

lemma length_lr_blocks_eq_iff:
  "int (length (lr_blocks values milestones m)) = milestones ! m - milestones ! 0
     \<longleftrightarrow> (\<forall>n<m. milestones ! n \<le> milestones ! Suc n)"
proof (induction m)
  case 0
  then show ?case by (simp add: lr_blocks_def)
next
  case (Suc m)
  have ge: "milestones ! m - milestones ! 0 \<le> int (length (lr_blocks values milestones m))"
    by (rule length_lr_blocks_ge)
  have "int (length (lr_blocks values milestones (Suc m))) = milestones ! Suc m - milestones ! 0
      \<longleftrightarrow> int (length (lr_blocks values milestones m)) = milestones ! m - milestones ! 0
          \<and> milestones ! m \<le> milestones ! Suc m"
    using ge by (auto simp: lr_blocks_Suc)
  then show ?case using Suc by (auto simp: less_Suc_eq)
qed

lemma custom_milestones_nth:
  "(0 # ms @ [n_epochs]) ! 0 = (0::int)" "(0 # ms @ [n_epochs]) ! (length ms + 1) = n_epochs"
  by (simp_all add: nth_append)

lemma custom_lr_vec:
  assumes "lr_vec_fcn (lr0 # vs) (0 # ms @ [n_epochs]) = Inr lr_vec"
  shows "lr_vec = lr_blocks (lr0 # vs) (0 # ms @ [n_epochs]) (length ms + 1)"
proof (cases "length ms \<le> length vs")
  case True
  then show ?thesis
    using assms lr_vec_fcn_blocks [of "0 # ms @ [n_epochs]" "lr0 # vs"] by simp
next
  case False
  then show ?thesis
    using assms lr_vec_fcn_short_values [of "lr0 # vs" "0 # ms @ [n_epochs]"] by simp
qed

lemma custom_lr_vec_length:
  assumes "lr_vec_fcn (lr0 # vs) (0 # ms @ [n_epochs]) = Inr lr_vec"
  shows "n_epochs \<le> int (length lr_vec)"
    and "int (length lr_vec) = n_epochs \<longleftrightarrow> sorted (0 # ms @ [n_epochs])"
proof -
  let ?ms = "0 # ms @ [n_epochs]"
  let ?m = "length ms + 1"
  have r: "lr_vec = lr_blocks (lr0 # vs) ?ms ?m" using assms by (rule custom_lr_vec)
  have ends: "?ms ! ?m = n_epochs" "?ms ! 0 = 0" by (simp_all add: nth_append)
  show "n_epochs \<le> int (length lr_vec)"
    using length_lr_blocks_ge [of ?ms ?m "lr0 # vs"] ends r by simp
  have "int (length lr_vec) = n_epochs \<longleftrightarrow> (\<forall>n<?m. ?ms ! n \<le> ?ms ! Suc n)"
    using length_lr_blocks_eq_iff [of "lr0 # vs" ?ms ?m] ends r by simp
  also have "\<dots> \<longleftrightarrow> sorted ?ms"
    unfolding sorted_iff_nth_Suc [of ?ms] by (auto simp: less_Suc_eq_le)
  finally show "int (length lr_vec) = n_epochs \<longleftrightarrow> sorted (0 # ms @ [n_epochs])" .
qed

lemma adjust_learning_rate_IndexError:
  "adjust_learning_rate opt epoch v = Inl IndexError
     \<longleftrightarrow> epoch < - int (length v) \<or> int (length v) \<le> epoch"
  by (auto simp: adjust_learning_rate_def py_index_def)

lemma adjust_learning_rate_in_range:
  "0 \<le> epoch \<Longrightarrow> epoch < int (length v) \<Longrightarrow>
   adjust_learning_rate opt epoch v =
     Inr (opt\<lparr>param_group_lrs := map (\<lambda>_. v ! nat epoch) (param_group_lrs opt)\<rparr>)"
  by (simp add: adjust_learning_rate_def py_index_def)

text \<open>
  Claim C9, as amended. \<open>adjust_learning_rate\<close> reads \<open>lr_vec[epoch]\<close> with no check
  of the bounds: it raises IndexError exactly when \<open>epoch\<close> is outside
  \<open>-len(lr_vec) .. len(lr_vec) - 1\<close>. In \<open>main\<close> with custom values, the list built by
  \<open>lr_vec_fcn([lr] + custom_lr_values, [0] + custom_lr_milestones + [epochs])\<close> is built
  whenever there are at least as many values as milestones; it is never shorter than
  \<open>args.epochs\<close>, and has length \<open>args.epochs\<close> exactly when
  \<open>[0] + custom_lr_milestones + [epochs]\<close> is non-decreasing. So the indexing is in
  range for every epoch with \<open>0 \<le> epoch < epochs\<close>, whatever the order of the
  milestones. The checks of \<open>main\<close> on its arguments do not look at the milestones.
\<close>

theorem custom_lr_vec_covers_epochs:
  "(adjust_learning_rate opt epoch v = Inl IndexError
      \<longleftrightarrow> epoch < - int (length v) \<or> int (length v) \<le> epoch)
   \<and> (length ms \<le> length vs \<longrightarrow> (\<exists>lr_vec. lr_vec_fcn (lr0 # vs) (0 # ms @ [n_epochs]) = Inr lr_vec))
   \<and> (lr_vec_fcn (lr0 # vs) (0 # ms @ [n_epochs]) = Inr lr_vec \<longrightarrow>
         n_epochs \<le> int (length lr_vec)
       \<and> (int (length lr_vec) = n_epochs \<longleftrightarrow> sorted (0 # ms @ [n_epochs]))
       \<and> (\<forall>e. 0 \<le> e \<and> e < n_epochs \<longrightarrow>
             adjust_learning_rate opt e lr_vec =
               Inr (opt\<lparr>param_group_lrs := map (\<lambda>_. lr_vec ! nat e) (param_group_lrs opt)\<rparr>)))
   \<and> check_eval_args (a\<lparr>custom_lr_values := cv, custom_lr_milestones := cm\<rparr>) = check_eval_args a"
proof (intro conjI impI allI)
  show "adjust_learning_rate opt epoch v = Inl IndexError
      \<longleftrightarrow> epoch < - int (length v) \<or> int (length v) \<le> epoch"
    by (rule adjust_learning_rate_IndexError)
next
  assume "length ms \<le> length vs"
  then show "\<exists>lr_vec. lr_vec_fcn (lr0 # vs) (0 # ms @ [n_epochs]) = Inr lr_vec"
    using lr_vec_fcn_blocks [of "0 # ms @ [n_epochs]" "lr0 # vs"] by simp
next
  assume r: "lr_vec_fcn (lr0 # vs) (0 # ms @ [n_epochs]) = Inr lr_vec"
  show "n_epochs \<le> int (length lr_vec)" using r by (rule custom_lr_vec_length(1))
  show "int (length lr_vec) = n_epochs \<longleftrightarrow> sorted (0 # ms @ [n_epochs])"
    using r by (rule custom_lr_vec_length(2))
  fix e assume "0 \<le> e \<and> e < n_epochs"
  then have "0 \<le> e" "e < int (length lr_vec)"
    using custom_lr_vec_length(1) [OF r] by simp_all
  then show "adjust_learning_rate opt e lr_vec =
               Inr (opt\<lparr>param_group_lrs := map (\<lambda>_. lr_vec ! nat e) (param_group_lrs opt)\<rparr>)"
    by (rule adjust_learning_rate_in_range)
next
  show "check_eval_args (a\<lparr>custom_lr_values := cv, custom_lr_milestones := cm\<rparr>) = check_eval_args a"
    by (simp add: check_eval_args_def)
qed

theorem custom_lr_vec_covers_epochs_witness:
  "length [2 :: int] \<le> length [5 :: real]
   \<and> lr_vec_fcn [1, 5 :: real] [0, 2, 3] = Inr [1, 1, 5]
   \<and> (0 :: int) \<le> 2 \<and> (2 :: int) < 3
   \<and> adjust_learning_rate \<lparr>param_group_lrs = [1 :: real], opt_state = ()\<rparr> 2 [1, 1, 5]
       = Inr \<lparr>param_group_lrs = [5], opt_state = ()\<rparr>"
proof -
  have r: "lr_vec_fcn [1, 5 :: real] [0, 2, 3] = Inr [1, 1, 5]"
    by (simp add: lr_vec_fcn_def py_index_def upt_rec numeral_2_eq_2 numeral_3_eq_3)
  from custom_lr_vec_covers_epochs
    [where opt = "\<lparr>param_group_lrs = [1 :: real], opt_state = ()\<rparr>" and epoch = 2
       and v = "[1, 1, 5]" and ms = "[2]" and vs = "[5]" and ?lr0.0 = 1 and n_epochs = 3
       and lr_vec = "[1, 1, 5]" and a = default_args and cv = None and cm = None]
  show ?thesis using r by (simp add: numeral_2_eq_2)
qed

text \<open>
  No list of milestones makes \<open>lr_vec\<close> shorter than \<open>epochs\<close>: a pair of
  milestones out of order contributes no element, and the other pairs make up for the
  difference. Milestones 5, 3 with 9 epochs give 11 elements, a milestone 12 with 9 epochs
  gives 12.
\<close>

theorem lr_vec_never_shorter_counterexample:
  "\<not> (\<exists>(lr0 :: real) vs ms n_epochs lr_vec.
         lr_vec_fcn (lr0 # vs) (0 # ms @ [n_epochs]) = Inr lr_vec \<and> int (length lr_vec) < n_epochs)
   \<and> map_sum id length (lr_vec_fcn [1, 2, 3 :: real] (0 # [5, 3] @ [9])) = Inr 11
   \<and> map_sum id length (lr_vec_fcn [1, 2 :: real] (0 # [12] @ [9])) = Inr 12"
proof (intro conjI)
  show "\<not> (\<exists>(lr0 :: real) vs ms n_epochs lr_vec.
         lr_vec_fcn (lr0 # vs) (0 # ms @ [n_epochs]) = Inr lr_vec \<and> int (length lr_vec) < n_epochs)"
    using custom_lr_vec_length(1) by fastforce
  show "map_sum id length (lr_vec_fcn [1, 2, 3 :: real] (0 # [5, 3] @ [9])) = Inr 11"
    by (simp add: lr_vec_fcn_def py_index_def upt_rec numeral_2_eq_2 numeral_3_eq_3)
  show "map_sum id length (lr_vec_fcn [1, 2 :: real] (0 # [12] @ [9])) = Inr 12"
    by (simp add: lr_vec_fcn_def py_index_def upt_rec numeral_2_eq_2 numeral_3_eq_3)
qed

section \<open>Resuming from a saved checkpoint\<close>






end
